theory Spec2Isabelle
  imports Main "HOL-Library.Word" "HOL-Library.Sublist" "HOL-Library.AList"
begin

unbundle bit_operations_syntax

section \<open>Go errors\<close>

text \<open>
  A Go \<^verbatim>\<open>error\<close> value is \<open>None\<close> for \<^verbatim>\<open>nil\<close> and \<open>Some e\<close> otherwise. Three shapes of
  error occur in the code under study: a plain message (\<^verbatim>\<open>fmt.Errorf\<close> without \<^verbatim>\<open>%w\<close>),
  a message wrapping one error (\<^verbatim>\<open>fmt.Errorf\<close> with \<^verbatim>\<open>%w\<close>; the formatted text is stored
  next to the wrapped error) and the result of \<^verbatim>\<open>errors.Join\<close>.
\<close>

datatype error =
    ErrorString string
  | WrapError string error
  | JoinError "error list"

fun intercalate :: "string \<Rightarrow> string list \<Rightarrow> string" where
  "intercalate sep [] = []"
| "intercalate sep [x] = x"
| "intercalate sep (x # y # ys) = x @ sep @ intercalate sep (y # ys)"

text \<open>The method \<^verbatim>\<open>Error()\<close>: a joined error prints its members one per line.\<close>

fun Error :: "error \<Rightarrow> string" where
  "Error (ErrorString s) = s"
| "Error (WrapError s e) = s"
| "Error (JoinError es) = intercalate [CHR 0x0A] (map Error es)"

text \<open>\<^verbatim>\<open>fmt.Errorf(pre + "%w" + post, err)\<close> with a non-nil \<^verbatim>\<open>err\<close>.\<close>

definition Errorf_w :: "string \<Rightarrow> error \<Rightarrow> string \<Rightarrow> error" where
  "Errorf_w pre e post = WrapError (pre @ Error e @ post) e"

text \<open>\<^verbatim>\<open>errors.Unwrap\<close>: the error wrapped with \<^verbatim>\<open>%w\<close>, if any.\<close>

fun Unwrap :: "error \<Rightarrow> error option" where
  "Unwrap (WrapError s e) = Some e"
| "Unwrap e = None"

text \<open>
  \<^verbatim>\<open>errors.Join(errs...)\<close> drops the nil arguments and returns nil when none is left;
  otherwise it returns one error holding the remaining ones in order.
\<close>

definition errors_Join :: "error option list \<Rightarrow> error option" where
  "errors_Join errs =
     (let es = List.map_filter id errs in if es = [] then None else Some (JoinError es))"

text \<open>
  The errors a (possibly nested) join was built from, left to right: every error that is
  not itself a join is a member.
\<close>

fun joined :: "error \<Rightarrow> error list" where
  "joined (JoinError es) = concat (map joined es)"
| "joined e = [e]"

definition joined_opt :: "error option \<Rightarrow> error list" where
  "joined_opt eo = (case eo of None \<Rightarrow> [] | Some e \<Rightarrow> joined e)"

section \<open>Host results (src/unnamed/part\_011)\<close>

type_synonym ResultStatus = int

definition SUCCESS :: ResultStatus where "SUCCESS = 0"
definition FAILURE :: ResultStatus where "FAILURE = 1"
definition EXCEPTION :: ResultStatus where "EXCEPTION = 2"

definition wrongCredentialErrMsg :: "string list" where
  "wrongCredentialErrMsg = [''Wrong password'', ''Wrong certificate'']"

definition SuccessCode :: int where "SuccessCode = 200"
definition MultipleChoiceCode :: int where "MultipleChoiceCode = 300"
definition UnauthorizedCode :: int where "UnauthorizedCode = 401"
definition InternalErrorCode :: int where "InternalErrorCode = 500"

definition NMACurVersion :: string where "NMACurVersion = ''v1/''"

record HostHTTPResult =
  status :: ResultStatus
  statusCode :: int
  host :: string
  content :: string
  err :: "error option"

definition IsUnauthorizedRequest :: "HostHTTPResult \<Rightarrow> bool" where
  "IsUnauthorizedRequest hostResult \<longleftrightarrow> statusCode hostResult = UnauthorizedCode"

definition IsInternalError :: "HostHTTPResult \<Rightarrow> bool" where
  "IsInternalError hostResult \<longleftrightarrow> statusCode hostResult = InternalErrorCode"

definition isPassing :: "HostHTTPResult \<Rightarrow> bool" where
  "isPassing hostResult \<longleftrightarrow> err hostResult = None"

definition IsHTTPRunning :: "HostHTTPResult \<Rightarrow> bool" where
  "IsHTTPRunning hostResult =
     (if isPassing hostResult \<or> IsUnauthorizedRequest hostResult \<or> IsInternalError hostResult
      then True else False)"

text \<open>\<^verbatim>\<open>strings.Contains(s, substr)\<close>: \<open>substr\<close> occurs in \<open>s\<close> as a contiguous block.\<close>

fun strings_Contains :: "string \<Rightarrow> string \<Rightarrow> bool" where
  "strings_Contains [] substr = (substr = [])"
| "strings_Contains (c # cs) substr = (prefix substr (c # cs) \<or> strings_Contains cs substr)"

text \<open>
  The loop of \<^verbatim>\<open>IsPasswordandCertificateError\<close> over \<^verbatim>\<open>wrongCredentialErrMsg\<close>: the first
  message found in the rendered result ends it with true.
\<close>

fun containsAnyMsg :: "string \<Rightarrow> string list \<Rightarrow> bool" where
  "containsAnyMsg resultString [] = False"
| "containsAnyMsg resultString (msg # msgs) =
     (if strings_Contains resultString msg then True else containsAnyMsg resultString msgs)"

text \<open>
  \<open>fmt_v\<close> stands for \<^verbatim>\<open>fmt.Sprintf("%v", hostResult)\<close>, the rendering of the whole result
  by Go's standard library. The call of \<^verbatim>\<open>vlog.LogError\<close> before returning true only writes
  to the global logger and does not change the value returned.
\<close>

definition IsPasswordandCertificateError :: "(HostHTTPResult \<Rightarrow> string) \<Rightarrow> HostHTTPResult \<Rightarrow> bool" where
  "IsPasswordandCertificateError fmt_v hostResult =
     (if \<not> IsUnauthorizedRequest hostResult then False
      else containsAnyMsg (fmt_v hostResult) wrongCredentialErrMsg)"

section \<open>Spread security: key generation (src/unnamed/part\_008)\<close>

text \<open>
  The two random sources of Go's standard library. \<^verbatim>\<open>crypto/rand.Read(b)\<close> either fails or
  fills all of \<open>b\<close>; \<^verbatim>\<open>math/rand.Intn(n)\<close> (for \<open>n > 0\<close>) returns a number in \<open>[0, n)\<close> and
  advances the generator, modelled as an infinite sequence of raw draws reduced modulo \<open>n\<close>.
\<close>

datatype entropy = EntropyFails error | EntropyBytes "nat \<Rightarrow> 8 word"

type_synonym rng = "nat \<Rightarrow> nat"

definition crand_Read :: "entropy \<Rightarrow> nat \<Rightarrow> error + 8 word list" where
  "crand_Read src n =
     (case src of EntropyFails e \<Rightarrow> Inl e | EntropyBytes f \<Rightarrow> Inr (map f [0..<n]))"

definition rand_Intn :: "nat \<Rightarrow> rng \<Rightarrow> nat \<times> rng" where
  "rand_Intn n g = (g 0 mod n, \<lambda>i. g (Suc i))"

definition hextable :: string where
  "hextable = ''0123456789abcdef''"

text \<open>\<^verbatim>\<open>hex.EncodeToString\<close>: two characters per byte, high nibble first.\<close>

fun hex_EncodeToString :: "8 word list \<Rightarrow> string" where
  "hex_EncodeToString [] = []"
| "hex_EncodeToString (v # vs) =
     hextable ! unat (drop_bit 4 v) # hextable ! unat (v AND 0x0F) # hex_EncodeToString vs"

definition spreadKeyTypeVertica :: string where
  "spreadKeyTypeVertica = ''vertica''"

definition spreadKeySize :: nat where "spreadKeySize = 32"

definition generateVerticaSpreadKey :: "entropy \<Rightarrow> error + string" where
  "generateVerticaSpreadKey src =
     (case crand_Read src spreadKeySize of
        Inl e \<Rightarrow> Inl (Errorf_w ''failed to generate random bytes for spread: '' e [])
      | Inr bytes \<Rightarrow> Inr (hex_EncodeToString bytes))"

definition keyLength :: nat where "keyLength = 4"

definition availChars :: string where
  "availChars = ''abcdefghijklmnopqrstuvwxyz0123456789''"

text \<open>The loop \<^verbatim>\<open>for i := range b\<close> of \<^verbatim>\<open>generateKeyID\<close>, with \<open>n\<close> positions left to fill.\<close>

fun generateKeyID_loop :: "nat \<Rightarrow> rng \<Rightarrow> string \<times> rng" where
  "generateKeyID_loop 0 g = ([], g)"
| "generateKeyID_loop (Suc n) g =
     (case rand_Intn (length availChars) g of
        (k, g') \<Rightarrow> (case generateKeyID_loop n g' of (b, g'') \<Rightarrow> (availChars ! k # b, g'')))"

definition generateKeyID :: "rng \<Rightarrow> string \<times> rng" where
  "generateKeyID g = generateKeyID_loop keyLength g"

definition generateSecurityDetails :: "string \<Rightarrow> entropy \<Rightarrow> rng \<Rightarrow> (error + string) \<times> rng" where
  "generateSecurityDetails keyType src g =
     (case generateKeyID g of
        (keyID, g') \<Rightarrow>
          (if keyType = spreadKeyTypeVertica then
             (case generateVerticaSpreadKey src of
                Inl e \<Rightarrow> (Inl e, g')
              | Inr spreadKey \<Rightarrow> (Inr (''{'' @ keyID @ '': '' @ spreadKey @ ''}''), g'))
           else (Inl (ErrorString (''unsupported spread key type '' @ keyType)), g')))"

section \<open>The coordination database (src/unnamed/part\_007)\<close>

text \<open>
  A Go call either returns or panics. The functions below that write through a nil map or
  a nil pointer panic at that point, before any later effect.
\<close>

datatype 'a go = Panic string | Return 'a

text \<open>
  \<^verbatim>\<open>NodeConfig\<close> is declared outside the sources; these are the fields that \<^verbatim>\<open>addHosts\<close>
  and \<^verbatim>\<open>setFromNodeConfig\<close> use.
\<close>

record NodeConfig =
  Address :: string
  Name :: string
  Subcluster :: string

record VCoordinationNode =
  Name :: string
  Address :: string
  CatalogPath :: string
  StorageLocations :: "string list"
  UserStorageLocations :: "string list"
  DepotPath :: string
  Port :: int
  ControlAddressFamily :: string
  IsPrimary :: bool
  State :: string
  Subcluster :: string

text \<open>
  \<^verbatim>\<open>HostNodeMap\<close> is a Go map from address to node: \<open>None\<close> is the nil map (the zero value
  of the struct), \<open>Some al\<close> a map holding the entries of \<open>al\<close>, whose order is the order
  in which \<^verbatim>\<open>range\<close> visits them.
\<close>

type_synonym vHostNodeMap = "(string \<times> VCoordinationNode) list option"

record VCoordinationDatabase =
  Name :: string
  CatalogPrefix :: string
  DataPrefix :: string
  HostNodeMap :: vHostNodeMap
  HostList :: "string list"
  IsEon :: bool
  CommunalStorageLocation :: string
  UseDepot :: bool
  DepotPrefix :: string
  DepotSize :: string
  AwsIDKey :: string
  AwsSecretKey :: string
  NumShards :: int
  LicensePathOnNode :: string
  Ipv6 :: bool
  PrimaryUpNodes :: "string list"

definition makeVHostNodeMap :: vHostNodeMap where
  "makeVHostNodeMap = Some []"

definition entries :: "vHostNodeMap \<Rightarrow> (string \<times> VCoordinationNode) list" where
  "entries m = (case m of None \<Rightarrow> [] | Some al \<Rightarrow> al)"

definition makeVCoordinationNode :: VCoordinationNode where
  "makeVCoordinationNode =
     \<lparr>VCoordinationNode.Name = [], VCoordinationNode.Address = [], CatalogPath = [],
      StorageLocations = [], UserStorageLocations = [], DepotPath = [], Port = 0,
      ControlAddressFamily = [], IsPrimary = False, State = [],
      VCoordinationNode.Subcluster = []\<rparr>"

text \<open>
  Modelled from the spec: the constants \<^verbatim>\<open>util.IPv6ControlAddressFamily\<close> and
  \<^verbatim>\<open>util.DefaultControlAddressFamily\<close> are not among the sources; the spec names the two
  address families IPv4 and IPv6.
\<close>

definition IPv6ControlAddressFamily :: string where
  "IPv6ControlAddressFamily = ''ipv6''"

definition DefaultControlAddressFamily :: string where
  "DefaultControlAddressFamily = ''ipv4''"

text \<open>
  The path builders; \<open>join\<close> stands for \<^verbatim>\<open>filepath.Join\<close> of the standard library.
\<close>

definition genDataPath :: "(string list \<Rightarrow> string) \<Rightarrow> VCoordinationDatabase \<Rightarrow> string \<Rightarrow> string" where
  "genDataPath join vdb nodeName =
     join [DataPrefix vdb, VCoordinationDatabase.Name vdb, nodeName @ ''_data'']"

definition genDepotPath :: "(string list \<Rightarrow> string) \<Rightarrow> VCoordinationDatabase \<Rightarrow> string \<Rightarrow> string" where
  "genDepotPath join vdb nodeName =
     join [DepotPrefix vdb, VCoordinationDatabase.Name vdb, nodeName @ ''_depot'']"

definition genCatalogPath :: "(string list \<Rightarrow> string) \<Rightarrow> VCoordinationDatabase \<Rightarrow> string \<Rightarrow> string" where
  "genCatalogPath join vdb nodeName =
     join [CatalogPrefix vdb, VCoordinationDatabase.Name vdb, nodeName @ ''_catalog'']"

definition setFromNodeConfig ::
  "(string list \<Rightarrow> string) \<Rightarrow> NodeConfig \<Rightarrow> VCoordinationDatabase \<Rightarrow> VCoordinationNode \<Rightarrow> VCoordinationNode" where
  "setFromNodeConfig join nodeConfig vdb vnode =
     vnode\<lparr>VCoordinationNode.Address := NodeConfig.Address nodeConfig,
           VCoordinationNode.Name := NodeConfig.Name nodeConfig,
           VCoordinationNode.Subcluster := NodeConfig.Subcluster nodeConfig,
           CatalogPath := genCatalogPath join vdb (NodeConfig.Name nodeConfig),
           StorageLocations :=
             StorageLocations vnode @ [genDataPath join vdb (NodeConfig.Name nodeConfig)],
           DepotPath :=
             (if DepotPrefix vdb \<noteq> [] then genDepotPath join vdb (NodeConfig.Name nodeConfig)
              else DepotPath vnode),
           ControlAddressFamily :=
             (if Ipv6 vdb then IPv6ControlAddressFamily else DefaultControlAddressFamily)\<rparr>"

text \<open>
  \<^verbatim>\<open>addNode\<close>. Reading a nil map finds nothing; writing to it panics, before the append to
  \<^verbatim>\<open>HostList\<close>.
\<close>

definition addNode :: "VCoordinationDatabase \<Rightarrow> VCoordinationNode \<Rightarrow> error option go \<times> VCoordinationDatabase" where
  "addNode vdb vnode =
     (case map_of (entries (HostNodeMap vdb)) (VCoordinationNode.Address vnode) of
        Some existing \<Rightarrow>
          (Return (Some (ErrorString
             (''host '' @ VCoordinationNode.Address vnode @ '' has already been in the VDB's HostList''))),
           vdb)
      | None \<Rightarrow>
          (case HostNodeMap vdb of
             None \<Rightarrow> (Panic ''assignment to entry in nil map'', vdb)
           | Some al \<Rightarrow>
               (Return None,
                vdb\<lparr>HostNodeMap := Some (AList.update (VCoordinationNode.Address vnode) vnode al),
                    HostList := HostList vdb @ [VCoordinationNode.Address vnode]\<rparr>)))"

definition genNodeNameToHostMap :: "VCoordinationDatabase \<Rightarrow> (string \<rightharpoonup> string)" where
  "genNodeNameToHostMap vdb =
     foldl (\<lambda>vnodes (h, vnode). vnodes(VCoordinationNode.Name vnode \<mapsto> h)) Map.empty
       (entries (HostNodeMap vdb))"

text \<open>
  The loop of \<^verbatim>\<open>addHosts\<close>. \<open>gen\<close> stands for \<^verbatim>\<open>util.GenVNodeName\<close>, which is not among the
  sources: from the names in use, the database name and the host count it returns a fresh
  node name or fails.
\<close>

fun addHosts_loop ::
  "((string \<rightharpoonup> string) \<Rightarrow> string \<Rightarrow> nat \<Rightarrow> string option) \<Rightarrow> (string list \<Rightarrow> string) \<Rightarrow> nat \<Rightarrow> string \<Rightarrow>
   string list \<Rightarrow> (string \<rightharpoonup> string) \<Rightarrow> VCoordinationDatabase \<Rightarrow> error option go \<times> VCoordinationDatabase" where
  "addHosts_loop gen join totalHostCount scName [] nodeNameToHost vdb = (Return None, vdb)"
| "addHosts_loop gen join totalHostCount scName (h # rest) nodeNameToHost vdb =
     (case gen nodeNameToHost (VCoordinationDatabase.Name vdb) totalHostCount of
        None \<Rightarrow> (Return (Some (ErrorString (''could not generate a vnode name for '' @ h))), vdb)
      | Some nm \<Rightarrow>
          (let nodeConfig = \<lparr>NodeConfig.Address = h, NodeConfig.Name = nm, NodeConfig.Subcluster = scName\<rparr>;
               vNode = setFromNodeConfig join nodeConfig vdb makeVCoordinationNode
           in case addNode vdb vNode of
                (Return None, vdb') \<Rightarrow>
                  addHosts_loop gen join totalHostCount scName rest (nodeNameToHost(nm \<mapsto> h)) vdb'
              | (r, vdb') \<Rightarrow> (r, vdb')))"

definition addHosts ::
  "((string \<rightharpoonup> string) \<Rightarrow> string \<Rightarrow> nat \<Rightarrow> string option) \<Rightarrow> (string list \<Rightarrow> string) \<Rightarrow>
   string list \<Rightarrow> string \<Rightarrow> VCoordinationDatabase \<Rightarrow> error option go \<times> VCoordinationDatabase" where
  "addHosts gen join hs scName vdb =
     addHosts_loop gen join (length hs + length (HostList vdb)) scName hs
       (genNodeNameToHostMap vdb) vdb"

text \<open>
  The invariant of the data model: the ordered host list and the key set of the map hold
  the same addresses, and the list has no duplicates.
\<close>

definition vdb_inv :: "VCoordinationDatabase \<Rightarrow> bool" where
  "vdb_inv vdb \<longleftrightarrow>
     set (HostList vdb) = set (map fst (entries (HostNodeMap vdb))) \<and> distinct (HostList vdb)"

section \<open>Requests and operations\<close>

text \<open>
  The declarations of \<^verbatim>\<open>HostHTTPRequest\<close>, \<^verbatim>\<open>ClusterHTTPRequest\<close> and of the execution
  context are not among the sources; the records below hold the fields that the sources
  read and write. \<^verbatim>\<open>OpBase\<close> is declared in src/unnamed/part\_011.
\<close>

record HostHTTPRequest =
  Method :: string
  Endpoint :: string
  RequestData :: string
  QueryParams :: "string \<rightharpoonup> string"
  Username :: string
  Password :: "nat option"

definition GetMethod :: string where "GetMethod = ''GET''"
definition PostMethod :: string where "PostMethod = ''POST''"

definition emptyHostHTTPRequest :: HostHTTPRequest where
  "emptyHostHTTPRequest =
     \<lparr>Method = [], Endpoint = [], RequestData = [], QueryParams = Map.empty, Username = [],
      Password = None\<rparr>"

text \<open>
  Modelled from the spec: \<^verbatim>\<open>BuildNMAEndpoint\<close> is not among the sources; the spec says that
  the relative endpoint is prefixed with the NMA version \<^verbatim>\<open>v1/\<close>.
\<close>

definition BuildNMAEndpoint :: "string \<Rightarrow> HostHTTPRequest \<Rightarrow> HostHTTPRequest" where
  "BuildNMAEndpoint url req = req\<lparr>Endpoint := NMACurVersion @ url\<rparr>"

text \<open>
  \<^verbatim>\<open>ResultCollection\<close> is a Go map from host to result, read only by \<^verbatim>\<open>range\<close> loops: it is
  the list of its entries in the order in which the loop visits them. Go leaves that order
  open, so a property of a loop is stated for every order.
\<close>

record ClusterHTTPRequest =
  RequestCollection :: "string \<rightharpoonup> HostHTTPRequest"
  ResultCollection :: "(string \<times> HostHTTPResult) list"
  SemVar :: string

definition emptyClusterHTTPRequest :: ClusterHTTPRequest where
  "emptyClusterHTTPRequest =
     \<lparr>RequestCollection = Map.empty, ResultCollection = [], SemVar = []\<rparr>"

record OpBase =
  name :: string
  hosts :: "string list"
  clusterHTTPRequest :: ClusterHTTPRequest
  skipExecute :: bool

text \<open>
  A call of the logger: the message (or format) and the further strings passed to it.
\<close>

datatype logEntry = LogInfo string "string list"

definition logged_strings :: "logEntry list \<Rightarrow> string list" where
  "logged_strings es = concat (map (\<lambda>e. case e of LogInfo msg args \<Rightarrow> msg # args) es)"

text \<open>
  Modelled from the spec: \<^verbatim>\<open>dispatcher.Setup(hosts)\<close> is not among the sources; the spec
  says that it resizes the pool to the hosts, so the dispatcher is the host list it was last
  set up with. The record is the part of the execution context that the operations below
  read and write; its \<^verbatim>\<open>nmaVDatabase\<close> is of a type declared outside the sources and is only
  handed on.
\<close>

record 'v OpEngineExecContext =
  hostsWithLatestCatalog :: "string list"
  nmaVDatabase :: 'v
  dispatcher :: "string list"

text \<open>
  Strings reached through pointers (\<^verbatim>\<open>fileContent *string\<close>) live in a store; a pointer
  is \<open>None\<close> when nil and \<open>Some a\<close> when it points to cell \<open>a\<close>.
\<close>

type_synonym store = "nat \<Rightarrow> string"

text \<open>Go's \<^verbatim>\<open>%d\<close> for an \<^verbatim>\<open>int\<close>.\<close>

fun digits :: "nat \<Rightarrow> string" where
  "digits n = (if n < 10 then [char_of (48 + n)] else digits (n div 10) @ [char_of (48 + n mod 10)])"

definition fmt_d :: "int \<Rightarrow> string" where
  "fmt_d i = (if i < 0 then ''-'' @ digits (nat (- i)) else digits (nat i))"

section \<open>Spread security: results (src/unnamed/part\_008)\<close>

record nmaSpreadSecurityOp = OpBase +
  catalogPathMap :: "string \<rightharpoonup> string"
  keyType :: string

text \<open>
  The loop of \<^verbatim>\<open>processResult\<close>, with the value of \<^verbatim>\<open>allErrs\<close> on entry. \<open>parse\<close> stands for
  \<^verbatim>\<open>parseAndCheckMapResponse\<close> on a host's content, whose JSON decoder is not among the
  sources. The second component lists the hosts handed to \<^verbatim>\<open>logResponse\<close>, that is the
  results the loop examined, in order. The statement after the loop is \<^verbatim>\<open>return nil\<close>.
\<close>

fun nmaSpreadSecurityOp_processResult_loop ::
  "(string \<Rightarrow> error + 'm) \<Rightarrow> (string \<times> HostHTTPResult) list \<Rightarrow> error option \<Rightarrow> error option \<times> string list" where
  "nmaSpreadSecurityOp_processResult_loop parse [] allErrs = (None, [])"
| "nmaSpreadSecurityOp_processResult_loop parse ((h, result) # rest) allErrs =
     (if isPassing result then
        (case parse (content result) of
           Inl e \<Rightarrow> (errors_Join [allErrs, Some e], [h])
         | Inr obj \<Rightarrow>
             (case nmaSpreadSecurityOp_processResult_loop parse rest allErrs of
                (r, seen) \<Rightarrow> (r, h # seen)))
      else
        (case nmaSpreadSecurityOp_processResult_loop parse rest (errors_Join [allErrs, err result]) of
           (r, seen) \<Rightarrow> (r, h # seen)))"

definition nmaSpreadSecurityOp_processResult ::
  "(string \<Rightarrow> error + 'm) \<Rightarrow> nmaSpreadSecurityOp \<Rightarrow> error option \<times> string list" where
  "nmaSpreadSecurityOp_processResult parse op =
     nmaSpreadSecurityOp_processResult_loop parse (ResultCollection (clusterHTTPRequest op)) None"

section \<open>Download config (src/vclusterops/nma\_download\_config.go)\<close>

record NMADownloadConfigOp = OpBase +
  catalogPathMap :: "string \<rightharpoonup> string"
  endpoint :: string
  fileContent :: "nat option"

text \<open>
  The loop of \<^verbatim>\<open>processResult\<close>. The first passing result is written through the pointer
  \<^verbatim>\<open>fileContent\<close> (a nil pointer panics there) and ends the method with nil.
\<close>

fun NMADownloadConfigOp_processResult_loop ::
  "nat option \<Rightarrow> (string \<times> HostHTTPResult) list \<Rightarrow> error option \<Rightarrow> store \<Rightarrow>
   error option go \<times> store \<times> string list" where
  "NMADownloadConfigOp_processResult_loop fc [] allErrs st =
     (Return (errors_Join [allErrs, Some (ErrorString ''could not find a host with a passing result'')]),
      st, [])"
| "NMADownloadConfigOp_processResult_loop fc ((h, result) # rest) allErrs st =
     (if isPassing result then
        (case fc of
           None \<Rightarrow> (Panic ''nil pointer dereference'', st, [h])
         | Some a \<Rightarrow> (Return None, st(a := content result), [h]))
      else
        (case NMADownloadConfigOp_processResult_loop fc rest (errors_Join [allErrs, err result]) st of
           (r, st', seen) \<Rightarrow> (r, st', h # seen)))"

definition NMADownloadConfigOp_processResult ::
  "NMADownloadConfigOp \<Rightarrow> store \<Rightarrow> error option go \<times> store \<times> string list" where
  "NMADownloadConfigOp_processResult op st =
     NMADownloadConfigOp_processResult_loop (NMADownloadConfigOp.fileContent op)
       (ResultCollection (clusterHTTPRequest op)) None st"

section \<open>Check subcluster (src/unnamed/part\_005) and sandboxing (src/vclusterops/https\_sandbox\_subcluster\_op.go)\<close>

record httpsCheckSubclusterOp = OpBase +
  useHTTPPassword :: bool
  httpsPassword :: "nat option"
  userName :: string
  scName :: string
  isSecondary :: bool
  ctlSetSize :: int

record scInfo =
  SCName :: string
  IsSecondary :: bool
  CtlSetSize :: int

text \<open>
  The checks of \<^verbatim>\<open>httpsCheckSubclusterOp.processResult\<close> on a decoded response.
\<close>

definition checkSubclusterInfo :: "httpsCheckSubclusterOp \<Rightarrow> scInfo \<Rightarrow> error option" where
  "checkSubclusterInfo op subclusterInfo =
     (if SCName subclusterInfo \<noteq> httpsCheckSubclusterOp.scName op then
        Some (ErrorString (''['' @ name op @ ''] new subcluster name should be '' @ [CHR 0x27] @
          httpsCheckSubclusterOp.scName op @ [CHR 0x27] @ '' but got '' @ [CHR 0x27] @
          SCName subclusterInfo @ [CHR 0x27]))
      else if IsSecondary subclusterInfo \<noteq> isSecondary op then
        (if isSecondary op then
           Some (ErrorString (''['' @ name op @
             ''] new subcluster should be a secondary subcluster but got a primary subcluster''))
         else
           Some (ErrorString (''['' @ name op @
             ''] new subcluster should be a primary subcluster but got a secondary subcluster'')))
      else if CtlSetSize subclusterInfo \<noteq> ctlSetSize op then
        Some (ErrorString (''['' @ name op @ ''] new subcluster should have control set size as '' @
          fmt_d (ctlSetSize op) @ '' but got '' @ fmt_d (CtlSetSize subclusterInfo)))
      else None)"

text \<open>
  The loop of \<^verbatim>\<open>httpsCheckSubclusterOp.processResult\<close>, with the value of \<^verbatim>\<open>err\<close> on entry;
  \<open>parse\<close> stands for the JSON decoding of \<^verbatim>\<open>parseAndCheckResponse\<close> into \<^verbatim>\<open>scInfo\<close>.
\<close>

fun httpsCheckSubclusterOp_processResult_loop ::
  "(string \<Rightarrow> error + scInfo) \<Rightarrow> httpsCheckSubclusterOp \<Rightarrow> (string \<times> HostHTTPResult) list \<Rightarrow>
   error option \<Rightarrow> error option \<times> string list" where
  "httpsCheckSubclusterOp_processResult_loop parse op [] err0 = (err0, [])"
| "httpsCheckSubclusterOp_processResult_loop parse op ((h, result) # rest) err0 =
     (if IsUnauthorizedRequest result then (err result, [h])
      else if \<not> isPassing result then
        (case httpsCheckSubclusterOp_processResult_loop parse op rest (err result) of
           (r, seen) \<Rightarrow> (r, h # seen))
      else
        (case parse (content result) of
           Inl e \<Rightarrow>
             (Some (Errorf_w (''['' @ name op @ ''] fail to parse result on host '' @ h @ '', details: '') e []),
              [h])
         | Inr subclusterInfo \<Rightarrow> (checkSubclusterInfo op subclusterInfo, [h])))"

definition httpsCheckSubclusterOp_processResult ::
  "(string \<Rightarrow> error + scInfo) \<Rightarrow> httpsCheckSubclusterOp \<Rightarrow> error option \<times> string list" where
  "httpsCheckSubclusterOp_processResult parse op =
     httpsCheckSubclusterOp_processResult_loop parse op (ResultCollection (clusterHTTPRequest op)) None"

record httpsSandboxingOp = OpBase +
  useHTTPPassword :: bool
  httpsPassword :: "nat option"
  userName :: string
  hostRequestBodyMap :: "string \<rightharpoonup> string"
  scName :: string
  sandboxName :: string

text \<open>
  The loop of \<^verbatim>\<open>httpsSandboxingOp.processResult\<close>, with the value of \<^verbatim>\<open>allErrs\<close> on entry.
\<close>

fun httpsSandboxingOp_processResult_loop ::
  "(string \<Rightarrow> error + 'm) \<Rightarrow> httpsSandboxingOp \<Rightarrow> (string \<times> HostHTTPResult) list \<Rightarrow>
   error option \<Rightarrow> error option \<times> string list" where
  "httpsSandboxingOp_processResult_loop parse op [] allErrs = (allErrs, [])"
| "httpsSandboxingOp_processResult_loop parse op ((h, result) # rest) allErrs =
     (if IsUnauthorizedRequest result then (err result, [h])
      else if \<not> isPassing result then
        (case httpsSandboxingOp_processResult_loop parse op rest (errors_Join [allErrs, err result]) of
           (r, seen) \<Rightarrow> (r, h # seen))
      else
        (case parse (content result) of
           Inl e \<Rightarrow>
             (Some (Errorf_w (''['' @ name op @ ''] fail to parse result on host '' @ h @ '', details: '') e []),
              [h])
         | Inr obj \<Rightarrow> (None, [h])))"

definition httpsSandboxingOp_processResult ::
  "(string \<Rightarrow> error + 'm) \<Rightarrow> httpsSandboxingOp \<Rightarrow> error option \<times> string list" where
  "httpsSandboxingOp_processResult parse op =
     httpsSandboxingOp_processResult_loop parse op (ResultCollection (clusterHTTPRequest op)) None"

section \<open>Spread security: request bodies (src/unnamed/part\_008)\<close>

record nmaSpreadSecurityPayload =
  CatalogPath :: string
  SpreadSecurityDetails :: string

text \<open>
  The loop of \<^verbatim>\<open>setupRequestBody\<close> over \<^verbatim>\<open>op.hosts\<close>, building \<^verbatim>\<open>hostRequestBodyMap\<close>. The
  second component holds the calls of \<^verbatim>\<open>op.log.Info\<close> in order. \<open>getCatalogPath\<close> is the
  repository's function of that name, \<open>marshal\<close> is \<^verbatim>\<open>json.Marshal\<close> and \<open>fmt_v_map\<close>
  is the \<^verbatim>\<open>%v\<close> rendering of a map; none of them is among the sources.
\<close>

fun nmaSpreadSecurityOp_setupRequestBody_loop ::
  "(string \<Rightarrow> string) \<Rightarrow> (nmaSpreadSecurityPayload \<Rightarrow> error + string) \<Rightarrow> ((string \<rightharpoonup> string) \<Rightarrow> string) \<Rightarrow>
   nmaSpreadSecurityOp \<Rightarrow> string \<Rightarrow> string list \<Rightarrow> (string \<rightharpoonup> string) \<Rightarrow>
   (error + (string \<rightharpoonup> string)) \<times> logEntry list" where
  "nmaSpreadSecurityOp_setupRequestBody_loop getCatalogPath marshal fmt_v_map op securityDetails []
     bodyMap = (Inr bodyMap, [])"
| "nmaSpreadSecurityOp_setupRequestBody_loop getCatalogPath marshal fmt_v_map op securityDetails (h # rest)
     bodyMap =
     (case nmaSpreadSecurityOp.catalogPathMap op h of
        None \<Rightarrow>
          (Inl (ErrorString (''could not find host '' @ h @ '' in catalogPathMap '' @
             fmt_v_map (nmaSpreadSecurityOp.catalogPathMap op))), [])
      | Some fullCatalogPath \<Rightarrow>
          (let payload = \<lparr>nmaSpreadSecurityPayload.CatalogPath = getCatalogPath fullCatalogPath,
                          SpreadSecurityDetails = securityDetails\<rparr>;
               l1 = LogInfo ''payload setup''
                      [''catalogPath'', nmaSpreadSecurityPayload.CatalogPath payload,
                       ''securityDetails'', securityDetails]
           in case marshal payload of
                Inl e \<Rightarrow>
                  (Inl (Errorf_w (''['' @ name op @
                     ''] fail to marshal payload data into JSON string, detail '') e []), [l1])
              | Inr dataBytes \<Rightarrow>
                  (case nmaSpreadSecurityOp_setupRequestBody_loop getCatalogPath marshal fmt_v_map op
                          securityDetails rest (bodyMap(h \<mapsto> dataBytes)) of
                     (r, l) \<Rightarrow> (r, l1 # LogInfo ''mashaled payload'' [''payload'', dataBytes] # l))))"

definition nmaSpreadSecurityOp_setupRequestBody ::
  "(string \<Rightarrow> string) \<Rightarrow> (nmaSpreadSecurityPayload \<Rightarrow> error + string) \<Rightarrow> ((string \<rightharpoonup> string) \<Rightarrow> string) \<Rightarrow>
   entropy \<Rightarrow> rng \<Rightarrow> nmaSpreadSecurityOp \<Rightarrow> (error + (string \<rightharpoonup> string)) \<times> rng \<times> logEntry list" where
  "nmaSpreadSecurityOp_setupRequestBody getCatalogPath marshal fmt_v_map src g op =
     (if length (hosts op) = 0 then
        (Inl (ErrorString (''['' @ name op @ ''] no hosts specified'')), g, [])
      else
        (case generateSecurityDetails (keyType op) src g of
           (Inl e, g') \<Rightarrow> (Inl e, g', [])
         | (Inr securityDetails, g') \<Rightarrow>
             (case nmaSpreadSecurityOp_setupRequestBody_loop getCatalogPath marshal fmt_v_map op
                     securityDetails (hosts op) Map.empty of
                (r, l) \<Rightarrow> (r, g', l))))"

section \<open>Upload config (src/vclusterops/nma\_upload\_config.go)\<close>

record NMAUploadConfigOp = OpBase +
  catalogPathMap :: "string \<rightharpoonup> string"
  endpoint :: string
  fileContent :: "nat option"
  hostRequestBodyMap :: "string \<rightharpoonup> string"
  sourceConfigHost :: "string list option"
  destHosts :: "string list"
  vdb :: "VCoordinationDatabase option"
  encryptSpread :: bool

record uploadConfigRequestData =
  CatalogPath :: string
  Content :: string

text \<open>
  Modelled from the spec: \<^verbatim>\<open>util.SliceDiff\<close> is not among the sources; the spec describes
  its result as the set difference (``all hosts minus source'', ``set difference against
  \<^verbatim>\<open>hostsWithLatestCatalog\<close>''): the elements of the first list that are not in the second,
  in the order of the first.
\<close>

definition SliceDiff :: "'a list \<Rightarrow> 'a list \<Rightarrow> 'a list" where
  "SliceDiff m n = filter (\<lambda>x. x \<notin> set n) m"

definition spreadKeyPayload :: string where
  "spreadKeyPayload =
     ''{'' @ [CHR 0x22] @ ''y17b'' @ [CHR 0x22] @ '': '' @ [CHR 0x22] @
     ''26169b33c812e9d1db67ec1dd3046a23219aa1e32840a105322de2dd06752279'' @ [CHR 0x22] @ ''}''"

text \<open>
  The loop of \<^verbatim>\<open>setupRequestBody\<close> over the hosts, with the file content already read
  through the pointer; a host missing from \<^verbatim>\<open>catalogPathMap\<close> gets the empty path.
\<close>

fun NMAUploadConfigOp_setupRequestBody_loop ::
  "(uploadConfigRequestData \<Rightarrow> error + string) \<Rightarrow> string \<Rightarrow> (string \<rightharpoonup> string) \<Rightarrow> string \<Rightarrow>
   string list \<Rightarrow> (string \<rightharpoonup> string) \<Rightarrow> error option \<times> (string \<rightharpoonup> string)" where
  "NMAUploadConfigOp_setupRequestBody_loop marshal nm cpm fc [] bodyMap = (None, bodyMap)"
| "NMAUploadConfigOp_setupRequestBody_loop marshal nm cpm fc (h # rest) bodyMap =
     (case marshal \<lparr>uploadConfigRequestData.CatalogPath = (case cpm h of None \<Rightarrow> [] | Some p \<Rightarrow> p),
                    Content = fc\<rparr> of
        Inl e \<Rightarrow>
          (Some (Errorf_w (''['' @ nm @ ''] fail to marshal request data to JSON string, detail '') e []),
           bodyMap)
      | Inr dataBytes \<Rightarrow>
          NMAUploadConfigOp_setupRequestBody_loop marshal nm cpm fc rest (bodyMap(h \<mapsto> dataBytes)))"

text \<open>
  \<^verbatim>\<open>setupRequestBody\<close>. In \<^verbatim>\<open>encryptSpread\<close> mode the file content is rewritten through the
  pointer and then logged. Reading through a nil pointer panics: at the rewrite, or at the
  first host of the loop.
\<close>

definition NMAUploadConfigOp_setupRequestBody ::
  "(uploadConfigRequestData \<Rightarrow> error + string) \<Rightarrow> NMAUploadConfigOp \<Rightarrow> string list \<Rightarrow> store \<Rightarrow>
   error option go \<times> NMAUploadConfigOp \<times> store \<times> logEntry list" where
  "NMAUploadConfigOp_setupRequestBody marshal op hs st =
     (let op1 = op\<lparr>NMAUploadConfigOp.hostRequestBodyMap := Map.empty\<rparr> in
      case NMAUploadConfigOp.fileContent op1 of
        None \<Rightarrow>
          (if encryptSpread op1 \<or> hs \<noteq> [] then (Panic ''nil pointer dereference'', op1, st, [])
           else (Return None, op1, st, []))
      | Some a \<Rightarrow>
          (let st1 = (if encryptSpread op1
                      then st(a := st a @ [CHR 0x0A] @ ''# SPILLY added by me'' @ [CHR 0x0A] @
                                   ''# VSpreadKey: '' @ spreadKeyPayload)
                      else st);
               l = (if encryptSpread op1 then [LogInfo ''modified spread conf'' [''contents'', st1 a]]
                    else [])
           in case NMAUploadConfigOp_setupRequestBody_loop marshal (name op1)
                     (NMAUploadConfigOp.catalogPathMap op1) (st1 a) hs Map.empty of
                (r, bodyMap) \<Rightarrow>
                  (Return r, op1\<lparr>NMAUploadConfigOp.hostRequestBodyMap := bodyMap\<rparr>, st1, l)))"

definition NMAUploadConfigOp_setupClusterHTTPRequest :: "NMAUploadConfigOp \<Rightarrow> string list \<Rightarrow> NMAUploadConfigOp" where
  "NMAUploadConfigOp_setupClusterHTTPRequest op hs =
     op\<lparr>clusterHTTPRequest :=
          \<lparr>RequestCollection =
             foldl (\<lambda>rc h. rc(h \<mapsto> BuildNMAEndpoint (NMAUploadConfigOp.endpoint op)
                      (emptyHostHTTPRequest\<lparr>Method := PostMethod\<rparr>)
                        \<lparr>RequestData :=
                           (case NMAUploadConfigOp.hostRequestBodyMap op h of None \<Rightarrow> [] | Some d \<Rightarrow> d)\<rparr>))
               Map.empty hs,
           ResultCollection = [],
           SemVar = ''1.0.0''\<rparr>\<rparr>"

text \<open>
  The end of \<^verbatim>\<open>prepare\<close>: the request bodies, the dispatcher and the requests, for the
  hosts chosen before.
\<close>

definition NMAUploadConfigOp_prepare_requests ::
  "(uploadConfigRequestData \<Rightarrow> error + string) \<Rightarrow> NMAUploadConfigOp \<Rightarrow> 'v OpEngineExecContext \<Rightarrow> store \<Rightarrow>
   logEntry list \<Rightarrow>
   error option go \<times> NMAUploadConfigOp \<times> 'v OpEngineExecContext \<times> store \<times> logEntry list" where
  "NMAUploadConfigOp_prepare_requests marshal op execContext st l0 =
     (case NMAUploadConfigOp_setupRequestBody marshal op (hosts op) st of
        (Return None, op1, st1, l) \<Rightarrow>
          (Return None, NMAUploadConfigOp_setupClusterHTTPRequest op1 (hosts op1),
           execContext\<lparr>dispatcher := hosts op1\<rparr>, st1, l0 @ l)
      | (r, op1, st1, l) \<Rightarrow> (r, op1, execContext, st1, l0 @ l))"

text \<open>
  The middle of \<^verbatim>\<open>prepare\<close> when the catalog editor is the source of the catalog paths.
  \<open>upd\<close> stands for \<^verbatim>\<open>updateCatalogPathMapFromCatalogEditor\<close>, which is not among the
  sources: it fills the catalog path map for the given hosts from the catalog editor's
  database, or fails.
\<close>

definition NMAUploadConfigOp_prepare_fromCatalogEditor ::
  "(string list \<Rightarrow> 'v \<Rightarrow> (string \<rightharpoonup> string) \<Rightarrow> error option \<times> (string \<rightharpoonup> string)) \<Rightarrow>
   (uploadConfigRequestData \<Rightarrow> error + string) \<Rightarrow> NMAUploadConfigOp \<Rightarrow> 'v OpEngineExecContext \<Rightarrow> store \<Rightarrow>
   error option go \<times> NMAUploadConfigOp \<times> 'v OpEngineExecContext \<times> store \<times> logEntry list" where
  "NMAUploadConfigOp_prepare_fromCatalogEditor upd marshal op execContext st =
     (case upd (hosts op) (nmaVDatabase execContext) (NMAUploadConfigOp.catalogPathMap op) of
        (Some e, cpm) \<Rightarrow>
          (Return (Some (Errorf_w ''failed to get catalog paths from catalog editor: '' e [])),
           op\<lparr>NMAUploadConfigOp.catalogPathMap := cpm\<rparr>, execContext, st, [])
      | (None, cpm) \<Rightarrow>
          NMAUploadConfigOp_prepare_requests marshal
            (op\<lparr>NMAUploadConfigOp.catalogPathMap := cpm\<rparr>) execContext st [])"

text \<open>
  \<^verbatim>\<open>prepare\<close>; \<open>getCatalogPath\<close> stands for the repository's function of that name, which
  is not among the sources.
\<close>

definition NMAUploadConfigOp_prepare ::
  "(string list \<Rightarrow> 'v \<Rightarrow> (string \<rightharpoonup> string) \<Rightarrow> error option \<times> (string \<rightharpoonup> string)) \<Rightarrow> (string \<Rightarrow> string) \<Rightarrow>
   (uploadConfigRequestData \<Rightarrow> error + string) \<Rightarrow> NMAUploadConfigOp \<Rightarrow> 'v OpEngineExecContext \<Rightarrow> store \<Rightarrow>
   error option go \<times> NMAUploadConfigOp \<times> 'v OpEngineExecContext \<times> store \<times> logEntry list" where
  "NMAUploadConfigOp_prepare upd getCatalogPath marshal op execContext st =
     (let op0 = op\<lparr>NMAUploadConfigOp.catalogPathMap := Map.empty\<rparr>
      in if (case vdb op0 of None \<Rightarrow> True | Some v \<Rightarrow> length (entries (HostNodeMap v)) = 0) then
           (case sourceConfigHost op0 of
              None \<Rightarrow>
                (let latest = hostsWithLatestCatalog execContext in
                 if length latest = 0 then
                   (Return (Some (ErrorString ''could not find at least one host with the latest catalog'')),
                    op0, execContext, st, [])
                 else
                   (let op1 = op0\<lparr>hosts := SliceDiff (destHosts op0) latest\<rparr> in
                    if length (hosts op1) = 0 then
                      (Return None, op1\<lparr>skipExecute := True\<rparr>, execContext, st,
                       [LogInfo ''no hosts require an upload, skipping the operation'' []])
                    else NMAUploadConfigOp_prepare_fromCatalogEditor upd marshal op1 execContext st))
            | Some src \<Rightarrow>
                NMAUploadConfigOp_prepare_fromCatalogEditor upd marshal
                  (op0\<lparr>hosts := SliceDiff (destHosts op0) src\<rparr>) execContext st)
         else
           (let op1 = op0\<lparr>hosts := destHosts op0\<rparr>;
                cpm = foldl (\<lambda>m (h, vnode). m(h \<mapsto> getCatalogPath (VCoordinationNode.CatalogPath vnode)))
                        (NMAUploadConfigOp.catalogPathMap op1)
                        (case vdb op1 of None \<Rightarrow> [] | Some v \<Rightarrow> entries (HostNodeMap v))
            in NMAUploadConfigOp_prepare_requests marshal
                 (op1\<lparr>NMAUploadConfigOp.catalogPathMap := cpm\<rparr>) execContext st []))"

section \<open>The engine (src/vclusterops/cluster\_op\_engine.go)\<close>

record httpsCerts =
  key :: string
  cert :: string
  caCert :: string

text \<open>
  The engine holds its certificates through a pointer, which every caller takes from a
  value of its own (\<^verbatim>\<open>&certs\<close>), so it is never nil.
\<close>

text \<open>
  The interface \<^verbatim>\<open>clusterOp\<close>, as far as \<^verbatim>\<open>run\<close> calls it. An operation is any value with
  these methods; \<open>'s\<close> is the state they read and write: the execution context, the
  operations' own fields and the output of the loggers.
\<close>

record 's clusterOp =
  getName :: "'s \<Rightarrow> string"
  setupBasicInfo :: "'s \<Rightarrow> 's"
  logPrepare :: "'s \<Rightarrow> 's"
  prepare :: "'s \<Rightarrow> error option \<times> 's"
  isSkipExecute :: "'s \<Rightarrow> bool"
  loadCertsIfNeeded :: "httpsCerts \<Rightarrow> bool \<Rightarrow> 's \<Rightarrow> error option \<times> 's"
  logExecute :: "'s \<Rightarrow> 's"
  execute :: "'s \<Rightarrow> error option \<times> 's"
  logFinalize :: "'s \<Rightarrow> 's"
  finalize :: "'s \<Rightarrow> error option \<times> 's"

record 's VClusterOpEngine =
  instructions :: "'s clusterOp list"
  certs :: httpsCerts

definition shouldGetCertsFromOptions :: "'s VClusterOpEngine \<Rightarrow> bool" where
  "shouldGetCertsFromOptions opEngine \<longleftrightarrow>
     key (certs opEngine) \<noteq> [] \<and> cert (certs opEngine) \<noteq> [] \<and> caCert (certs opEngine) \<noteq> []"

text \<open>
  The end of the loop body: \<^verbatim>\<open>logFinalize\<close>, \<^verbatim>\<open>finalize\<close> and the message of completion;
  \<open>printWithIndent\<close> stands for \<^verbatim>\<open>logger.PrintWithIndent\<close>.
\<close>

definition run_finalize ::
  "(string \<Rightarrow> 's \<Rightarrow> 's) \<Rightarrow> 's clusterOp \<Rightarrow> 's \<Rightarrow> error option \<times> 's" where
  "run_finalize printWithIndent op s =
     (case finalize op (logFinalize op s) of
        (Some e, s') \<Rightarrow> (Some (Errorf_w ''finalize failed '' e []), s')
      | (None, s') \<Rightarrow>
          (None, printWithIndent (''['' @ getName op s' @ ''] is successfully completed'') s'))"

text \<open>The body of the loop of \<^verbatim>\<open>run\<close> for one operation.\<close>

definition run_instruction ::
  "httpsCerts \<Rightarrow> bool \<Rightarrow> (string \<Rightarrow> 's \<Rightarrow> 's) \<Rightarrow> 's clusterOp \<Rightarrow> 's \<Rightarrow> error option \<times> 's" where
  "run_instruction cs findCertsInOptions printWithIndent op s =
     (case prepare op (logPrepare op (setupBasicInfo op s)) of
        (Some e, s1) \<Rightarrow>
          (Some (Errorf_w (''prepare '' @ getName op s1 @ '' failed, details: '') e []), s1)
      | (None, s1) \<Rightarrow>
          (if \<not> isSkipExecute op s1 then
             (case loadCertsIfNeeded op cs findCertsInOptions s1 of
                (Some e, s2) \<Rightarrow>
                  (Some (Errorf_w (''loadCertsIfNeeded for '' @ getName op s2 @ '' failed, details: '') e []),
                   s2)
              | (None, s2) \<Rightarrow>
                  (case execute op (logExecute op s2) of
                     (Some e, s3) \<Rightarrow>
                       (Some (Errorf_w (''execute '' @ getName op s3 @ '' failed, details: '') e []), s3)
                   | (None, s3) \<Rightarrow> run_finalize printWithIndent op s3))
           else run_finalize printWithIndent op s1))"

text \<open>The loop over \<^verbatim>\<open>opEngine.instructions\<close>.\<close>

fun run_loop ::
  "httpsCerts \<Rightarrow> bool \<Rightarrow> (string \<Rightarrow> 's \<Rightarrow> 's) \<Rightarrow> 's clusterOp list \<Rightarrow> 's \<Rightarrow> error option \<times> 's" where
  "run_loop cs findCertsInOptions printWithIndent [] s = (None, s)"
| "run_loop cs findCertsInOptions printWithIndent (op # ops) s =
     (case run_instruction cs findCertsInOptions printWithIndent op s of
        (Some e, s') \<Rightarrow> (Some e, s')
      | (None, s') \<Rightarrow> run_loop cs findCertsInOptions printWithIndent ops s')"

text \<open>
  \<^verbatim>\<open>run\<close>; \<open>makeOpEngineExecContext\<close> stands for the function of that name, which sets up
  a fresh execution context and is not among the sources.
\<close>

definition run ::
  "('s \<Rightarrow> 's) \<Rightarrow> (string \<Rightarrow> 's \<Rightarrow> 's) \<Rightarrow> 's VClusterOpEngine \<Rightarrow> 's \<Rightarrow> error option \<times> 's" where
  "run makeOpEngineExecContext printWithIndent opEngine s =
     run_loop (certs opEngine) (shouldGetCertsFromOptions opEngine) printWithIndent
       (instructions opEngine) (makeOpEngineExecContext s)"

subsection \<open>Observing the calls\<close>

text \<open>
  To speak of the calls the engine makes, every operation of a plan is wrapped so that each
  of its four lifecycle methods, when called, notes the call next to the state:
  \<open>Called i m r\<close> says that method \<open>m\<close> of the operation at position \<open>i\<close> of the plan was
  called and returned \<open>r\<close>. A prepare that returns nil also notes, as \<open>SkipExecute i b\<close>,
  the answer \<open>b\<close> that \<^verbatim>\<open>isSkipExecute\<close> gives in the state it leaves. The wrapper changes
  nothing else: every method does to the state what the operation's own method does and
  returns what it returns.
\<close>

datatype opMethod = Prepare | LoadCertsIfNeeded | Execute | Finalize

datatype event = Called nat opMethod "error option" | SkipExecute nat bool

definition unobserved :: "('s \<Rightarrow> 's) \<Rightarrow> 's \<times> event list \<Rightarrow> 's \<times> event list" where
  "unobserved g st = (g (fst st), snd st)"

definition noted ::
  "nat \<Rightarrow> opMethod \<Rightarrow> ('s \<Rightarrow> error option \<times> 's) \<Rightarrow> 's \<times> event list \<Rightarrow> error option \<times> 's \<times> event list" where
  "noted i m call st =
     (case call (fst st) of (r, s') \<Rightarrow> (r, s', snd st @ [Called i m r]))"

definition observed :: "nat \<Rightarrow> 's clusterOp \<Rightarrow> ('s \<times> event list) clusterOp" where
  "observed i op =
     \<lparr>getName = (\<lambda>st. getName op (fst st)),
      setupBasicInfo = unobserved (setupBasicInfo op),
      logPrepare = unobserved (logPrepare op),
      prepare = (\<lambda>st. case noted i Prepare (prepare op) st of
                   (r, s', tr) \<Rightarrow>
                     (r, s', tr @ (if r = None then [SkipExecute i (isSkipExecute op s')] else []))),
      isSkipExecute = (\<lambda>st. isSkipExecute op (fst st)),
      loadCertsIfNeeded = (\<lambda>cs findCertsInOptions.
         noted i LoadCertsIfNeeded (loadCertsIfNeeded op cs findCertsInOptions)),
      logExecute = unobserved (logExecute op),
      execute = noted i Execute (execute op),
      logFinalize = unobserved (logFinalize op),
      finalize = noted i Finalize (finalize op)\<rparr>"

fun observed_plan :: "nat \<Rightarrow> 's clusterOp list \<Rightarrow> ('s \<times> event list) clusterOp list" where
  "observed_plan i [] = []"
| "observed_plan i (op # ops) = observed i op # observed_plan (Suc i) ops"

definition observed_engine :: "'s VClusterOpEngine \<Rightarrow> ('s \<times> event list) VClusterOpEngine" where
  "observed_engine opEngine =
     \<lparr>instructions = observed_plan 0 (instructions opEngine), certs = certs opEngine\<rparr>"

text \<open>
  \<^verbatim>\<open>run\<close> on the wrapped plan, from a state with no call noted yet: what it returns, the
  state it leaves and the calls noted.
\<close>

definition observed_run ::
  "('s \<Rightarrow> 's) \<Rightarrow> (string \<Rightarrow> 's \<Rightarrow> 's) \<Rightarrow> 's VClusterOpEngine \<Rightarrow> 's \<Rightarrow> error option \<times> 's \<times> event list" where
  "observed_run makeOpEngineExecContext printWithIndent opEngine s =
     run (unobserved makeOpEngineExecContext) (\<lambda>msg. unobserved (printWithIndent msg))
       (observed_engine opEngine) (s, [])"

subsection \<open>The lifecycle, as the specification words it\<close>

text \<open>
  The calls of one operation that runs to its end: prepare, then, unless \<^verbatim>\<open>skipExecute\<close> is
  set, cert loading and execute, then finalize, each once and without error.
\<close>

definition lifecycle :: "nat \<Rightarrow> bool \<Rightarrow> event list" where
  "lifecycle i skip =
     [Called i Prepare None, SkipExecute i skip] @
     (if skip then [] else [Called i LoadCertsIfNeeded None, Called i Execute None]) @
     [Called i Finalize None]"

text \<open>
  The calls of an operation whose method \<open>m\<close> fails with \<open>e\<close>: its lifecycle up to that
  call; nothing follows.
\<close>

definition failed_at :: "nat \<Rightarrow> bool \<Rightarrow> opMethod \<Rightarrow> error \<Rightarrow> event list" where
  "failed_at i skip m e =
     takeWhile (\<lambda>ev. ev \<noteq> Called i m None) (lifecycle i skip) @ [Called i m (Some e)]"

text \<open>The calls of consecutive operations, from position \<open>i\<close> on, that all run to their end.\<close>

fun completed :: "nat \<Rightarrow> bool list \<Rightarrow> event list" where
  "completed i [] = []"
| "completed i (skip # skips) = lifecycle i skip @ completed (Suc i) skips"

text \<open>
  The error that \<^verbatim>\<open>run\<close> returns when method \<open>m\<close> of the operation named \<open>nm\<close> returned
  \<open>e\<close>: \<open>e\<close> wrapped with \<^verbatim>\<open>%w\<close> behind the name of the step.
\<close>

definition step_error :: "opMethod \<Rightarrow> string \<Rightarrow> error \<Rightarrow> error" where
  "step_error m nm e =
     (case m of
        Prepare \<Rightarrow> Errorf_w (''prepare '' @ nm @ '' failed, details: '') e []
      | LoadCertsIfNeeded \<Rightarrow> Errorf_w (''loadCertsIfNeeded for '' @ nm @ '' failed, details: '') e []
      | Execute \<Rightarrow> Errorf_w (''execute '' @ nm @ '' failed, details: '') e []
      | Finalize \<Rightarrow> Errorf_w ''finalize failed '' e [])"

section \<open>Example inputs\<close>

definition example_failing :: "string \<Rightarrow> int \<Rightarrow> string \<Rightarrow> HostHTTPResult" where
  "example_failing h code msg =
     \<lparr>status = FAILURE, statusCode = code, host = h, content = [], err = Some (ErrorString msg)\<rparr>"

definition example_passing :: "string \<Rightarrow> string \<Rightarrow> HostHTTPResult" where
  "example_passing h body =
     \<lparr>status = SUCCESS, statusCode = SuccessCode, host = h, content = body, err = None\<rparr>"

definition example_request :: "(string \<times> HostHTTPResult) list \<Rightarrow> ClusterHTTPRequest" where
  "example_request rs = \<lparr>RequestCollection = Map.empty, ResultCollection = rs, SemVar = ''1.0.0''\<rparr>"

definition example_spreadOp :: "(string \<times> HostHTTPResult) list \<Rightarrow> nmaSpreadSecurityOp" where
  "example_spreadOp rs =
     \<lparr>name = ''NMASpreadSecurityOp'', hosts = [''10.0.0.1''],
      clusterHTTPRequest = example_request rs, skipExecute = False,
      nmaSpreadSecurityOp.catalogPathMap = [''10.0.0.1'' \<mapsto> ''/data/db/v_db_node0001_catalog/Catalog''],
      keyType = spreadKeyTypeVertica\<rparr>"

definition example_downloadOp :: "(string \<times> HostHTTPResult) list \<Rightarrow> NMADownloadConfigOp" where
  "example_downloadOp rs =
     \<lparr>name = ''NMADownloadConfigOp'', hosts = map fst rs,
      clusterHTTPRequest = example_request rs, skipExecute = False,
      NMADownloadConfigOp.catalogPathMap = Map.empty,
      NMADownloadConfigOp.endpoint = ''config/download'', NMADownloadConfigOp.fileContent = Some 0\<rparr>"

definition example_checkOp :: "(string \<times> HostHTTPResult) list \<Rightarrow> httpsCheckSubclusterOp" where
  "example_checkOp rs =
     \<lparr>name = ''HTTPSCheckSubclusterOp'', hosts = map fst rs,
      clusterHTTPRequest = example_request rs, skipExecute = False,
      httpsCheckSubclusterOp.useHTTPPassword = True, httpsCheckSubclusterOp.httpsPassword = Some 1,
      httpsCheckSubclusterOp.userName = ''dbadmin'', httpsCheckSubclusterOp.scName = ''sc1'',
      isSecondary = True, ctlSetSize = 2\<rparr>"

definition example_sandboxOp :: "(string \<times> HostHTTPResult) list \<Rightarrow> httpsSandboxingOp" where
  "example_sandboxOp rs =
     \<lparr>name = ''HTTPSSansboxingOp'', hosts = map fst rs,
      clusterHTTPRequest = example_request rs, skipExecute = False,
      useHTTPPassword = True, httpsPassword = Some 1, userName = ''dbadmin'',
      httpsSandboxingOp.hostRequestBodyMap = [''sandbox'' \<mapsto> ''sb1''], scName = ''sc1'', sandboxName = ''sb1''\<rparr>"

definition example_node :: "string \<Rightarrow> string \<Rightarrow> VCoordinationNode" where
  "example_node a n =
     makeVCoordinationNode\<lparr>VCoordinationNode.Address := a, VCoordinationNode.Name := n\<rparr>"

definition example_vdb :: VCoordinationDatabase where
  "example_vdb =
     \<lparr>VCoordinationDatabase.Name = ''db'', CatalogPrefix = ''/data'', DataPrefix = ''/data'',
      HostNodeMap = Some [(''10.0.0.1'', example_node ''10.0.0.1'' ''v_db_node0001'')],
      HostList = [''10.0.0.1''], IsEon = False, CommunalStorageLocation = [], UseDepot = False,
      DepotPrefix = [], DepotSize = [], AwsIDKey = [], AwsSecretKey = [], NumShards = 0,
      LicensePathOnNode = [], Ipv6 = False, PrimaryUpNodes = []\<rparr>"

definition example_gen :: "(string \<rightharpoonup> string) \<Rightarrow> string \<Rightarrow> nat \<Rightarrow> string option" where
  "example_gen vnodes dbName hostCount =
     (if vnodes ''v_db_node0002'' = None then Some ''v_db_node0002''
      else if vnodes ''v_db_node0003'' = None then Some ''v_db_node0003'' else None)"

definition example_results_401 :: "(string \<times> HostHTTPResult) list" where
  "example_results_401 =
     [(''10.0.0.1'', example_failing ''10.0.0.1'' 500 ''internal server error''),
      (''10.0.0.2'', example_failing ''10.0.0.2'' 401 ''Wrong password''),
      (''10.0.0.3'', example_passing ''10.0.0.3'' ''{}'')]"

definition example_uploadOp :: "string list option \<Rightarrow> string list \<Rightarrow> bool \<Rightarrow> NMAUploadConfigOp" where
  "example_uploadOp src dest enc =
     \<lparr>name = ''NMAUploadConfigOp'', hosts = [], clusterHTTPRequest = emptyClusterHTTPRequest,
      skipExecute = False, catalogPathMap = Map.empty, endpoint = ''config/upload'',
      fileContent = Some 0, hostRequestBodyMap = Map.empty, sourceConfigHost = src,
      destHosts = dest, vdb = None, encryptSpread = enc\<rparr>"

definition example_context :: "string list \<Rightarrow> unit OpEngineExecContext" where
  "example_context latest =
     \<lparr>hostsWithLatestCatalog = latest, nmaVDatabase = (), dispatcher = []\<rparr>"

definition example_upd :: "string list \<Rightarrow> unit \<Rightarrow> (string \<rightharpoonup> string) \<Rightarrow> error option \<times> (string \<rightharpoonup> string)" where
  "example_upd hs v cpm = (None, foldl (\<lambda>m h. m(h \<mapsto> ''/data/db/'' @ h @ ''_catalog'')) cpm hs)"

definition example_marshal_upload :: "uploadConfigRequestData \<Rightarrow> error + string" where
  "example_marshal_upload d =
     Inr (''catalog_path='' @ uploadConfigRequestData.CatalogPath d @ '';content='' @ Content d)"

definition example_marshal_spread :: "nmaSpreadSecurityPayload \<Rightarrow> error + string" where
  "example_marshal_spread p =
     Inr (''catalog_path='' @ nmaSpreadSecurityPayload.CatalogPath p @
          '';spread_security_details='' @ SpreadSecurityDetails p)"

definition example_entropy :: entropy where
  "example_entropy = EntropyBytes (\<lambda>i. of_nat (i * 37 + 200))"

definition example_rng :: rng where
  "example_rng = (\<lambda>i. i * 7 + 30)"

definition example_prepare ::
  "string list option \<Rightarrow> string list \<Rightarrow> string list \<Rightarrow>
   error option go \<times> NMAUploadConfigOp \<times> unit OpEngineExecContext \<times> store \<times> logEntry list" where
  "example_prepare src dest latest =
     NMAUploadConfigOp_prepare example_upd (\<lambda>p. p) example_marshal_upload
       (example_uploadOp src dest False) (example_context latest) (\<lambda>a. ''# spread.conf'')"

text \<open>
  Plans over a state that lists the calls the operations saw: every method appends its
  tag, \<open>skip\<close> is the answer of \<^verbatim>\<open>isSkipExecute\<close>, and the method \<open>bad\<close>, if any, fails.
\<close>

definition example_error :: error where
  "example_error = ErrorString ''no route to host''"

definition example_result :: "opMethod option \<Rightarrow> opMethod \<Rightarrow> error option" where
  "example_result bad m = (if bad = Some m then Some example_error else None)"

definition example_op :: "string \<Rightarrow> bool \<Rightarrow> opMethod option \<Rightarrow> string list clusterOp" where
  "example_op nm skip bad =
     \<lparr>getName = (\<lambda>s. nm), setupBasicInfo = (\<lambda>s. s), logPrepare = (\<lambda>s. s),
      prepare = (\<lambda>s. (example_result bad Prepare, s @ [nm @ ''.prepare''])),
      isSkipExecute = (\<lambda>s. skip),
      loadCertsIfNeeded =
        (\<lambda>cs find s. (example_result bad LoadCertsIfNeeded, s @ [nm @ ''.loadCertsIfNeeded''])),
      logExecute = (\<lambda>s. s),
      execute = (\<lambda>s. (example_result bad Execute, s @ [nm @ ''.execute''])),
      logFinalize = (\<lambda>s. s),
      finalize = (\<lambda>s. (example_result bad Finalize, s @ [nm @ ''.finalize'']))\<rparr>"

definition example_engine :: "string list clusterOp list \<Rightarrow> string list VClusterOpEngine" where
  "example_engine ops = \<lparr>instructions = ops, certs = \<lparr>key = [], cert = [], caCert = []\<rparr>\<rparr>"

definition example_print :: "string \<Rightarrow> string list \<Rightarrow> string list" where
  "example_print msg s = s @ [msg]"

definition example_run :: "string list clusterOp list \<Rightarrow> error option \<times> string list \<times> event list" where
  "example_run ops = observed_run id example_print (example_engine ops) []"

section \<open>Theorems\<close>

lemma strings_Contains_sublist: "strings_Contains s substr \<longleftrightarrow> sublist substr s"
  by (induction s) (auto simp: sublist_Cons_right)

text \<open>
  Claim C10. \<^verbatim>\<open>IsHTTPRunning\<close> is true exactly when the result is passing (its error is nil),
  or its status code is 401, or its status code is 500.
\<close>

theorem C10_IsHTTPRunning_iff:
  "IsHTTPRunning r \<longleftrightarrow> err r = None \<or> statusCode r = 401 \<or> statusCode r = 500"
  by (simp add: IsHTTPRunning_def isPassing_def IsUnauthorizedRequest_def IsInternalError_def
      UnauthorizedCode_def InternalErrorCode_def)

text \<open>
  Claim C8. \<^verbatim>\<open>IsPasswordandCertificateError\<close> is true exactly when the status code is 401 and
  the rendered result contains "Wrong password" or "Wrong certificate".
\<close>

theorem C8_IsPasswordandCertificateError_iff:
  "IsPasswordandCertificateError fmt_v r \<longleftrightarrow>
     statusCode r = 401 \<and>
     (strings_Contains (fmt_v r) ''Wrong password'' \<or> strings_Contains (fmt_v r) ''Wrong certificate'')"
  by (simp add: IsPasswordandCertificateError_def IsUnauthorizedRequest_def UnauthorizedCode_def
      wrongCredentialErrMsg_def)

subsection \<open>Generated keys\<close>

lemma high_nibble_less: "unat (drop_bit 4 (v :: 8 word)) < 16"
proof -
  have "unat v < 256"
    using unsigned_less [of v, where ?'a = nat] by simp
  then have "unat v div 16 < 16" by simp
  moreover have "unat (drop_bit 4 v) = unat v div 16"
    by (simp add: unat_drop_bit_eq drop_bit_eq_div unat_div)
  ultimately show ?thesis by simp
qed

lemma low_nibble_less: "unat ((v :: 8 word) AND 0x0F) < 16"
proof -
  have "v AND 0x0F \<le> 0x0F" by (rule word_and_le1)
  then have "unat (v AND 0x0F) \<le> unat (0x0F :: 8 word)"
    by (simp add: word_le_nat_alt)
  then show ?thesis by simp
qed

lemma hextable_nth: "n < 16 \<Longrightarrow> hextable ! n \<in> set hextable"
proof -
  assume "n < 16"
  then have "n < length hextable" by (simp add: hextable_def)
  then show ?thesis by (rule nth_mem)
qed

lemma length_hex_EncodeToString: "length (hex_EncodeToString bs) = 2 * length bs"
  by (induction bs) auto

lemma set_hex_EncodeToString: "set (hex_EncodeToString bs) \<subseteq> set hextable"
  by (induction bs) (auto simp: high_nibble_less low_nibble_less hextable_nth)

lemma availChars_nth: "availChars ! (k mod length availChars) \<in> set availChars"
  by (rule nth_mem) (simp add: availChars_def)

lemma generateKeyID_loop_chars:
  "generateKeyID_loop n g = (b, g') \<Longrightarrow> length b = n \<and> set b \<subseteq> set availChars"
proof (induction n arbitrary: g b g')
  case 0
  then show ?case by simp
next
  case (Suc n)
  obtain b0 g0 where r: "generateKeyID_loop n (\<lambda>i. g (Suc i)) = (b0, g0)"
    by (cases "generateKeyID_loop n (\<lambda>i. g (Suc i))")
  from Suc.IH [OF r] have "length b0 = n" and "set b0 \<subseteq> set availChars"
    by simp_all
  moreover from Suc.prems r have "b = availChars ! (g 0 mod length availChars) # b0"
    by (simp add: rand_Intn_def)
  ultimately show ?case
    using availChars_nth [of "g 0"] by simp
qed

lemma generateVerticaSpreadKey_Inr:
  "generateVerticaSpreadKey src = Inr spreadKey \<Longrightarrow>
     \<exists>f. src = EntropyBytes f \<and> spreadKey = hex_EncodeToString (map f [0..<32])"
  by (cases src) (auto simp: generateVerticaSpreadKey_def crand_Read_def spreadKeySize_def)

text \<open>
  Claim C6. Whenever the random source delivers its 32 bytes, \<^verbatim>\<open>generateVerticaSpreadKey\<close>
  produces a key; every key it produces has exactly 64 characters, all of them hexadecimal
  digits; and every key id produced by \<^verbatim>\<open>generateKeyID\<close> has exactly 4 characters, each
  a lower-case letter or a digit.
\<close>

theorem C6_generated_key_shape:
  "(\<exists>spreadKey. generateVerticaSpreadKey (EntropyBytes f) = Inr spreadKey) \<and>
   (\<forall>spreadKey. generateVerticaSpreadKey src = Inr spreadKey \<longrightarrow>
      length spreadKey = 64 \<and> (\<forall>c \<in> set spreadKey. c \<in> set ''0123456789abcdef'')) \<and>
   length (fst (generateKeyID g)) = 4 \<and>
   (\<forall>c \<in> set (fst (generateKeyID g)). c \<in> set ''abcdefghijklmnopqrstuvwxyz0123456789'')"
proof -
  have produced: "\<exists>spreadKey. generateVerticaSpreadKey (EntropyBytes f) = Inr spreadKey"
    by (simp add: generateVerticaSpreadKey_def crand_Read_def)
  have shape: "length spreadKey = 64 \<and> (\<forall>c \<in> set spreadKey. c \<in> set ''0123456789abcdef'')"
    if "generateVerticaSpreadKey src = Inr spreadKey" for spreadKey
  proof -
    from generateVerticaSpreadKey_Inr [OF that]
    obtain f' where sk: "spreadKey = hex_EncodeToString (map f' [0..<32])" by blast
    have "length spreadKey = 64"
      by (simp add: sk length_hex_EncodeToString)
    moreover have "set spreadKey \<subseteq> set hextable"
      unfolding sk by (rule set_hex_EncodeToString)
    ultimately show ?thesis
      unfolding hextable_def by blast
  qed
  obtain b g' where kid: "generateKeyID_loop keyLength g = (b, g')"
    by (cases "generateKeyID_loop keyLength g")
  from generateKeyID_loop_chars [OF kid]
  have "length b = 4" and "set b \<subseteq> set availChars"
    by (simp_all add: keyLength_def)
  moreover have "fst (generateKeyID g) = b"
    by (simp add: generateKeyID_def kid)
  ultimately have keyid: "length (fst (generateKeyID g)) = 4 \<and>
      (\<forall>c \<in> set (fst (generateKeyID g)). c \<in> set ''abcdefghijklmnopqrstuvwxyz0123456789'')"
    by (simp only: availChars_def subset_eq)
  from produced shape keyid show ?thesis by blast
qed

theorem C6_generated_key_shape_witness:
  "generateVerticaSpreadKey (EntropyBytes (\<lambda>i. of_nat (i * 37 + 200))) =
     Inr ''c8ed12375c81a6cbf0153a5f84a9cef3183d6287acd1f61b40658aafd4f91e43'' \<and>
   length ''c8ed12375c81a6cbf0153a5f84a9cef3183d6287acd1f61b40658aafd4f91e43'' = 64 \<and>
   fst (generateKeyID (\<lambda>i. i * 7 + 30)) = ''4bip'' \<and>
   length (fst (generateKeyID (\<lambda>i. i * 7 + 30))) = 4"
proof -
  have k: "generateVerticaSpreadKey (EntropyBytes (\<lambda>i. of_nat (i * 37 + 200))) =
      Inr ''c8ed12375c81a6cbf0153a5f84a9cef3183d6287acd1f61b40658aafd4f91e43''"
    by code_simp
  have i: "fst (generateKeyID (\<lambda>i. i * 7 + 30)) = ''4bip''"
    by code_simp
  note shape = C6_generated_key_shape [of "\<lambda>i. of_nat (i * 37 + 200)"
      "EntropyBytes (\<lambda>i. of_nat (i * 37 + 200))" "\<lambda>i. i * 7 + 30"]
  have l: "length ''c8ed12375c81a6cbf0153a5f84a9cef3183d6287acd1f61b40658aafd4f91e43'' = 64"
    by (rule shape [THEN conjunct2, THEN conjunct1, rule_format, OF k, THEN conjunct1])
  have j: "length (fst (generateKeyID (\<lambda>i. i * 7 + 30))) = 4"
    by (rule shape [THEN conjunct2, THEN conjunct2, THEN conjunct1])
  show ?thesis
    by (intro conjI) (rule k l i j)+
qed

subsection \<open>Joined errors\<close>

lemma joined_opt_errors_Join: "joined_opt (errors_Join es) = concat (map joined_opt es)"
proof -
  have "concat (map joined (List.map_filter id es)) = concat (map joined_opt es)"
    by (induction es) (auto simp: List.map_filter_simps joined_opt_def split: option.splits)
  then show ?thesis
    by (auto simp: errors_Join_def Let_def joined_opt_def)
qed

subsection \<open>Spread security: the result of processResult\<close>

lemma spread_all_failing:
  "\<forall>x \<in> set rs. \<not> isPassing (snd x) \<Longrightarrow>
   nmaSpreadSecurityOp_processResult_loop parse rs allErrs = (None, map fst rs)"
  by (induction rs arbitrary: allErrs) auto

text \<open>
  Claim C3. The claim says that failing host results make \<^verbatim>\<open>processResult\<close> return the join
  of their errors. The code collects them in \<^verbatim>\<open>allErrs\<close> and then returns nil: with two
  hosts that both fail, one with status 500 and one with a transport error, the result is
  nil after both results were examined.
\<close>

theorem C3_processResult_returns_nil:
  "nmaSpreadSecurityOp_processResult (\<lambda>c. Inr ())
     (example_spreadOp
        [(''10.0.0.1'', example_failing ''10.0.0.1'' 500 ''internal server error''),
         (''10.0.0.2'', example_failing ''10.0.0.2'' 0 ''connection refused'')]) =
   (None, [''10.0.0.1'', ''10.0.0.2''])"
  by (simp add: nmaSpreadSecurityOp_processResult_def example_spreadOp_def example_request_def
      example_failing_def isPassing_def)

subsection \<open>Download config: the result of processResult\<close>

lemma download_first_passing:
  "\<forall>x \<in> set pre. \<not> isPassing (snd x) \<Longrightarrow> isPassing r \<Longrightarrow>
   NMADownloadConfigOp_processResult_loop (Some a) (pre @ (h, r) # post) allErrs st =
     (Return None, st(a := content r), map fst pre @ [h])"
  by (induction pre arbitrary: allErrs) auto

lemma download_none_passing:
  "\<forall>x \<in> set rs. \<not> isPassing (snd x) \<Longrightarrow>
   \<exists>e. NMADownloadConfigOp_processResult_loop fc rs allErrs st = (Return (Some e), st, map fst rs) \<and>
       joined e = joined_opt allErrs @ concat (map (\<lambda>x. joined_opt (err (snd x))) rs) @
         [ErrorString ''could not find a host with a passing result'']"
proof (induction rs arbitrary: allErrs)
  case Nil
  have "joined_opt (errors_Join [allErrs, Some (ErrorString ''could not find a host with a passing result'')])
      = joined_opt allErrs @ [ErrorString ''could not find a host with a passing result'']"
    by (simp add: joined_opt_errors_Join) (simp add: joined_opt_def)
  moreover have "errors_Join [allErrs, Some (ErrorString ''could not find a host with a passing result'')] \<noteq> None"
    by (cases allErrs) (simp_all add: errors_Join_def List.map_filter_simps)
  ultimately show ?case by (auto simp: joined_opt_def split: option.splits)
next
  case (Cons x rs)
  obtain h r where x: "x = (h, r)" by (cases x)
  from Cons.prems have "\<forall>x \<in> set rs. \<not> isPassing (snd x)" and np: "\<not> isPassing r"
    by (simp_all add: x)
  from Cons.IH [OF this(1), of "errors_Join [allErrs, err r]"] np
  show ?case by (auto simp: x joined_opt_errors_Join)
qed

text \<open>
  Claim C4. With a non-nil \<^verbatim>\<open>fileContent\<close> pointer: if some host's result is passing, then
  \<^verbatim>\<open>processResult\<close> returns nil, the cell the pointer refers to holds the content of the
  first passing result in the order of the loop, and the results examined are those up to
  and including that one. If no result is passing, it returns an error joined from every
  host's error, in order, and the error ``could not find a host with a passing result'',
  after examining every result.
\<close>

theorem C4_download_processResult:
  "(NMADownloadConfigOp.fileContent op = Some a \<and>
    ResultCollection (clusterHTTPRequest op) = pre @ (h, r) # post \<and>
    (\<forall>x \<in> set pre. \<not> isPassing (snd x)) \<and> isPassing r \<longrightarrow>
      NMADownloadConfigOp_processResult op st =
        (Return None, st(a := content r), map fst pre @ [h])) \<and>
   ((\<forall>x \<in> set (ResultCollection (clusterHTTPRequest op)). \<not> isPassing (snd x)) \<longrightarrow>
      (\<exists>e. NMADownloadConfigOp_processResult op st =
              (Return (Some e), st, map fst (ResultCollection (clusterHTTPRequest op))) \<and>
            joined e =
              concat (map (\<lambda>x. joined_opt (err (snd x))) (ResultCollection (clusterHTTPRequest op))) @
              [ErrorString ''could not find a host with a passing result'']))"
proof (intro conjI impI)
  assume "NMADownloadConfigOp.fileContent op = Some a \<and>
    ResultCollection (clusterHTTPRequest op) = pre @ (h, r) # post \<and>
    (\<forall>x \<in> set pre. \<not> isPassing (snd x)) \<and> isPassing r"
  then show "NMADownloadConfigOp_processResult op st =
      (Return None, st(a := content r), map fst pre @ [h])"
    by (simp add: NMADownloadConfigOp_processResult_def download_first_passing)
next
  assume "\<forall>x \<in> set (ResultCollection (clusterHTTPRequest op)). \<not> isPassing (snd x)"
  from download_none_passing [OF this, of "NMADownloadConfigOp.fileContent op" None st]
  show "\<exists>e. NMADownloadConfigOp_processResult op st =
              (Return (Some e), st, map fst (ResultCollection (clusterHTTPRequest op))) \<and>
            joined e =
              concat (map (\<lambda>x. joined_opt (err (snd x))) (ResultCollection (clusterHTTPRequest op))) @
              [ErrorString ''could not find a host with a passing result'']"
    by (simp add: NMADownloadConfigOp_processResult_def joined_opt_def)
qed

theorem C4_download_processResult_witness:
  "NMADownloadConfigOp_processResult
     (example_downloadOp
        [(''10.0.0.1'', example_failing ''10.0.0.1'' 500 ''internal server error''),
         (''10.0.0.2'', example_passing ''10.0.0.2'' ''spread.conf of 10.0.0.2''),
         (''10.0.0.3'', example_passing ''10.0.0.3'' ''spread.conf of 10.0.0.3'')])
     (\<lambda>a. []) =
     (Return None, (\<lambda>a. [])(0 := ''spread.conf of 10.0.0.2''), [''10.0.0.1'', ''10.0.0.2'']) \<and>
   (\<exists>e. NMADownloadConfigOp_processResult
          (example_downloadOp
             [(''10.0.0.1'', example_failing ''10.0.0.1'' 500 ''internal server error''),
              (''10.0.0.2'', example_failing ''10.0.0.2'' 0 ''connection refused'')])
          (\<lambda>a. []) =
          (Return (Some e), (\<lambda>a. []), [''10.0.0.1'', ''10.0.0.2'']) \<and>
        joined e =
          [ErrorString ''internal server error'', ErrorString ''connection refused'',
           ErrorString ''could not find a host with a passing result''])"
proof
  show "NMADownloadConfigOp_processResult
     (example_downloadOp
        [(''10.0.0.1'', example_failing ''10.0.0.1'' 500 ''internal server error''),
         (''10.0.0.2'', example_passing ''10.0.0.2'' ''spread.conf of 10.0.0.2''),
         (''10.0.0.3'', example_passing ''10.0.0.3'' ''spread.conf of 10.0.0.3'')])
     (\<lambda>a. []) =
     (Return None, (\<lambda>a. [])(0 := ''spread.conf of 10.0.0.2''), [''10.0.0.1'', ''10.0.0.2''])"
    using C4_download_processResult [THEN conjunct1,
        of "example_downloadOp
        [(''10.0.0.1'', example_failing ''10.0.0.1'' 500 ''internal server error''),
         (''10.0.0.2'', example_passing ''10.0.0.2'' ''spread.conf of 10.0.0.2''),
         (''10.0.0.3'', example_passing ''10.0.0.3'' ''spread.conf of 10.0.0.3'')]"
        0 "[(''10.0.0.1'', example_failing ''10.0.0.1'' 500 ''internal server error'')]"
        "''10.0.0.2''" "example_passing ''10.0.0.2'' ''spread.conf of 10.0.0.2''"
        "[(''10.0.0.3'', example_passing ''10.0.0.3'' ''spread.conf of 10.0.0.3'')]" "\<lambda>a. []"]
    by (simp add: example_downloadOp_def example_request_def example_failing_def
        example_passing_def isPassing_def)
next
  show "\<exists>e. NMADownloadConfigOp_processResult
          (example_downloadOp
             [(''10.0.0.1'', example_failing ''10.0.0.1'' 500 ''internal server error''),
              (''10.0.0.2'', example_failing ''10.0.0.2'' 0 ''connection refused'')])
          (\<lambda>a. []) =
          (Return (Some e), (\<lambda>a. []), [''10.0.0.1'', ''10.0.0.2'']) \<and>
        joined e =
          [ErrorString ''internal server error'', ErrorString ''connection refused'',
           ErrorString ''could not find a host with a passing result'']"
    using C4_download_processResult [THEN conjunct2,
        of "example_downloadOp
             [(''10.0.0.1'', example_failing ''10.0.0.1'' 500 ''internal server error''),
              (''10.0.0.2'', example_failing ''10.0.0.2'' 0 ''connection refused'')]" "\<lambda>a. []"]
    by (simp add: example_downloadOp_def example_request_def example_failing_def
        isPassing_def joined_opt_def)
qed


subsection \<open>Check subcluster and sandboxing: unauthorized results\<close>

lemma check_reaches_unauthorized:
  "\<forall>x \<in> set pre. \<not> isPassing (snd x) \<and> \<not> IsUnauthorizedRequest (snd x) \<Longrightarrow>
   IsUnauthorizedRequest r \<Longrightarrow>
   httpsCheckSubclusterOp_processResult_loop parse op (pre @ (h, r) # post) e0 =
     (err r, map fst pre @ [h])"
  by (induction pre arbitrary: e0) auto

lemma sandbox_reaches_unauthorized:
  "\<forall>x \<in> set pre. \<not> isPassing (snd x) \<and> \<not> IsUnauthorizedRequest (snd x) \<Longrightarrow>
   IsUnauthorizedRequest r \<Longrightarrow>
   httpsSandboxingOp_processResult_loop parse op (pre @ (h, r) # post) e0 =
     (err r, map fst pre @ [h])"
  by (induction pre arbitrary: e0) auto

lemma check_unauthorized_is_last:
  "httpsCheckSubclusterOp_processResult_loop parse op rs e0 = (ret, seen) \<Longrightarrow>
   seen = take (length seen) (map fst rs) \<and>
   (\<forall>i < length seen. IsUnauthorizedRequest (snd (rs ! i)) \<longrightarrow>
      Suc i = length seen \<and> ret = err (snd (rs ! i)))"
proof (induction rs arbitrary: e0 ret seen)
  case Nil
  then show ?case by simp
next
  case (Cons x rs)
  obtain h r where x: "x = (h, r)" by (cases x)
  show ?case
  proof (cases "\<not> IsUnauthorizedRequest r \<and> \<not> isPassing r")
    case True
    obtain ret' seen' where rec:
      "httpsCheckSubclusterOp_processResult_loop parse op rs (err r) = (ret', seen')"
      by (cases "httpsCheckSubclusterOp_processResult_loop parse op rs (err r)")
    with Cons.prems True have eq: "ret = ret'" "seen = h # seen'"
      by (simp_all add: x)
    from Cons.IH [OF rec] have pre: "seen' = take (length seen') (map fst rs)"
      and ih: "\<And>j. j < length seen' \<Longrightarrow> IsUnauthorizedRequest (snd (rs ! j)) \<Longrightarrow>
                 Suc j = length seen' \<and> ret' = err (snd (rs ! j))"
      by blast+
    have "Suc i = length seen \<and> ret = err (snd ((x # rs) ! i))"
      if "i < length seen" and "IsUnauthorizedRequest (snd ((x # rs) ! i))" for i
    proof (cases i)
      case 0
      with that True show ?thesis by (simp add: x)
    next
      case (Suc j)
      with that have "j < length seen'" and "IsUnauthorizedRequest (snd (rs ! j))"
        by (simp_all add: eq)
      from ih [OF this] have "length seen' = Suc j" and "ret' = err (snd (rs ! j))"
        by simp_all
      then show ?thesis by (simp add: Suc eq)
    qed
    moreover from pre have "seen = take (length seen) (map fst (x # rs))"
      by (simp add: eq x)
    ultimately show ?thesis by blast
  next
    case False
    with Cons.prems have "seen = [h]" and "IsUnauthorizedRequest r \<longrightarrow> ret = err r"
      by (auto simp: x split: if_splits sum.splits)
    then show ?thesis by (simp add: x)
  qed
qed

lemma sandbox_unauthorized_is_last:
  "httpsSandboxingOp_processResult_loop parse op rs e0 = (ret, seen) \<Longrightarrow>
   seen = take (length seen) (map fst rs) \<and>
   (\<forall>i < length seen. IsUnauthorizedRequest (snd (rs ! i)) \<longrightarrow>
      Suc i = length seen \<and> ret = err (snd (rs ! i)))"
proof (induction rs arbitrary: e0 ret seen)
  case Nil
  then show ?case by simp
next
  case (Cons x rs)
  obtain h r where x: "x = (h, r)" by (cases x)
  show ?case
  proof (cases "\<not> IsUnauthorizedRequest r \<and> \<not> isPassing r")
    case True
    obtain ret' seen' where rec:
      "httpsSandboxingOp_processResult_loop parse op rs (errors_Join [e0, err r]) = (ret', seen')"
      by (cases "httpsSandboxingOp_processResult_loop parse op rs (errors_Join [e0, err r])")
    with Cons.prems True have eq: "ret = ret'" "seen = h # seen'"
      by (simp_all add: x)
    from Cons.IH [OF rec] have pre: "seen' = take (length seen') (map fst rs)"
      and ih: "\<And>j. j < length seen' \<Longrightarrow> IsUnauthorizedRequest (snd (rs ! j)) \<Longrightarrow>
                 Suc j = length seen' \<and> ret' = err (snd (rs ! j))"
      by blast+
    have "Suc i = length seen \<and> ret = err (snd ((x # rs) ! i))"
      if "i < length seen" and "IsUnauthorizedRequest (snd ((x # rs) ! i))" for i
    proof (cases i)
      case 0
      with that True show ?thesis by (simp add: x)
    next
      case (Suc j)
      with that have "j < length seen'" and "IsUnauthorizedRequest (snd (rs ! j))"
        by (simp_all add: eq)
      from ih [OF this] have "length seen' = Suc j" and "ret' = err (snd (rs ! j))"
        by simp_all
      then show ?thesis by (simp add: Suc eq)
    qed
    moreover from pre have "seen = take (length seen) (map fst (x # rs))"
      by (simp add: eq x)
    ultimately show ?thesis by blast
  next
    case False
    with Cons.prems have "seen = [h]" and "IsUnauthorizedRequest r \<longrightarrow> ret = err r"
      by (auto simp: x split: if_splits sum.splits)
    then show ?thesis by (simp add: x)
  qed
qed

text \<open>
  Claim C5. In \<^verbatim>\<open>httpsCheckSubclusterOp.processResult\<close> and in
  \<^verbatim>\<open>httpsSandboxingOp.processResult\<close>, a result with status 401 that the loop examines ends
  the method: it is the last result examined, and the method returns that host's error
  alone, whatever errors earlier hosts gave. The loop examines the results in order, and it
  reaches the first result with status 401 whenever every result before it is a failure;
  a passing result before it ends the loop first.
\<close>

theorem C5_unauthorized_short_circuits:
  "(httpsCheckSubclusterOp_processResult parse op = (ret, seen) \<longrightarrow>
      seen = take (length seen) (map fst (ResultCollection (clusterHTTPRequest op))) \<and>
      (\<forall>i < length seen. IsUnauthorizedRequest (snd (ResultCollection (clusterHTTPRequest op) ! i)) \<longrightarrow>
         Suc i = length seen \<and> ret = err (snd (ResultCollection (clusterHTTPRequest op) ! i)))) \<and>
   (ResultCollection (clusterHTTPRequest op) = pre @ (h, r) # post \<and> IsUnauthorizedRequest r \<and>
    (\<forall>x \<in> set pre. \<not> isPassing (snd x) \<and> \<not> IsUnauthorizedRequest (snd x)) \<longrightarrow>
      httpsCheckSubclusterOp_processResult parse op = (err r, map fst pre @ [h])) \<and>
   (httpsSandboxingOp_processResult parse' op' = (ret', seen') \<longrightarrow>
      seen' = take (length seen') (map fst (ResultCollection (clusterHTTPRequest op'))) \<and>
      (\<forall>i < length seen'. IsUnauthorizedRequest (snd (ResultCollection (clusterHTTPRequest op') ! i)) \<longrightarrow>
         Suc i = length seen' \<and> ret' = err (snd (ResultCollection (clusterHTTPRequest op') ! i)))) \<and>
   (ResultCollection (clusterHTTPRequest op') = pre' @ (h', r') # post' \<and> IsUnauthorizedRequest r' \<and>
    (\<forall>x \<in> set pre'. \<not> isPassing (snd x) \<and> \<not> IsUnauthorizedRequest (snd x)) \<longrightarrow>
      httpsSandboxingOp_processResult parse' op' = (err r', map fst pre' @ [h']))"
proof -
  have a: "httpsCheckSubclusterOp_processResult parse op = (ret, seen) \<longrightarrow>
      seen = take (length seen) (map fst (ResultCollection (clusterHTTPRequest op))) \<and>
      (\<forall>i < length seen. IsUnauthorizedRequest (snd (ResultCollection (clusterHTTPRequest op) ! i)) \<longrightarrow>
         Suc i = length seen \<and> ret = err (snd (ResultCollection (clusterHTTPRequest op) ! i)))"
    unfolding httpsCheckSubclusterOp_processResult_def
    by (rule impI) (erule check_unauthorized_is_last)
  have b: "ResultCollection (clusterHTTPRequest op) = pre @ (h, r) # post \<and> IsUnauthorizedRequest r \<and>
    (\<forall>x \<in> set pre. \<not> isPassing (snd x) \<and> \<not> IsUnauthorizedRequest (snd x)) \<longrightarrow>
      httpsCheckSubclusterOp_processResult parse op = (err r, map fst pre @ [h])"
    by (simp add: httpsCheckSubclusterOp_processResult_def check_reaches_unauthorized)
  have c: "httpsSandboxingOp_processResult parse' op' = (ret', seen') \<longrightarrow>
      seen' = take (length seen') (map fst (ResultCollection (clusterHTTPRequest op'))) \<and>
      (\<forall>i < length seen'. IsUnauthorizedRequest (snd (ResultCollection (clusterHTTPRequest op') ! i)) \<longrightarrow>
         Suc i = length seen' \<and> ret' = err (snd (ResultCollection (clusterHTTPRequest op') ! i)))"
    unfolding httpsSandboxingOp_processResult_def
    by (rule impI) (erule sandbox_unauthorized_is_last)
  have d: "ResultCollection (clusterHTTPRequest op') = pre' @ (h', r') # post' \<and> IsUnauthorizedRequest r' \<and>
    (\<forall>x \<in> set pre'. \<not> isPassing (snd x) \<and> \<not> IsUnauthorizedRequest (snd x)) \<longrightarrow>
      httpsSandboxingOp_processResult parse' op' = (err r', map fst pre' @ [h'])"
    by (simp add: httpsSandboxingOp_processResult_def sandbox_reaches_unauthorized)
  show ?thesis by (rule conjI a b c d)+
qed

theorem C5_unauthorized_short_circuits_witness:
  "httpsCheckSubclusterOp_processResult (\<lambda>c. Inl (ErrorString ''no JSON''))
     (example_checkOp example_results_401) =
     (Some (ErrorString ''Wrong password''), [''10.0.0.1'', ''10.0.0.2'']) \<and>
   httpsSandboxingOp_processResult (\<lambda>c. Inr ()) (example_sandboxOp example_results_401) =
     (Some (ErrorString ''Wrong password''), [''10.0.0.1'', ''10.0.0.2''])"
proof -
  note inst = C5_unauthorized_short_circuits [of "\<lambda>c. Inl (ErrorString ''no JSON'')"
      "example_checkOp example_results_401" _ _
      "[(''10.0.0.1'', example_failing ''10.0.0.1'' 500 ''internal server error'')]"
      "''10.0.0.2''" "example_failing ''10.0.0.2'' 401 ''Wrong password''"
      "[(''10.0.0.3'', example_passing ''10.0.0.3'' ''{}'')]"
      "\<lambda>c. Inr ()" "example_sandboxOp example_results_401" _ _
      "[(''10.0.0.1'', example_failing ''10.0.0.1'' 500 ''internal server error'')]"
      "''10.0.0.2''" "example_failing ''10.0.0.2'' 401 ''Wrong password''"
      "[(''10.0.0.3'', example_passing ''10.0.0.3'' ''{}'')]"]
  have a: "httpsCheckSubclusterOp_processResult (\<lambda>c. Inl (ErrorString ''no JSON''))
     (example_checkOp example_results_401) =
     (Some (ErrorString ''Wrong password''), [''10.0.0.1'', ''10.0.0.2''])"
    using inst [THEN conjunct2, THEN conjunct1]
    by (simp add: example_checkOp_def example_results_401_def example_request_def
        example_failing_def example_passing_def isPassing_def IsUnauthorizedRequest_def
        UnauthorizedCode_def)
  have b: "httpsSandboxingOp_processResult (\<lambda>c. Inr ()) (example_sandboxOp example_results_401) =
     (Some (ErrorString ''Wrong password''), [''10.0.0.1'', ''10.0.0.2''])"
    using inst [THEN conjunct2, THEN conjunct2, THEN conjunct2]
    by (simp add: example_sandboxOp_def example_results_401_def example_request_def
        example_failing_def example_passing_def isPassing_def IsUnauthorizedRequest_def
        UnauthorizedCode_def)
  from a b show ?thesis by (rule conjI)
qed

subsection \<open>The coordination database: hosts and nodes\<close>

lemma addNode_inv: "vdb_inv db \<Longrightarrow> vdb_inv (snd (addNode db vnode))"
  by (auto simp: addNode_def vdb_inv_def entries_def dom_update map_of_eq_None_iff
      split: option.splits)

lemma addHosts_loop_inv:
  "vdb_inv db \<Longrightarrow> vdb_inv (snd (addHosts_loop gen join n sc hs m db))"
proof (induction hs arbitrary: m db)
  case Nil
  then show ?case by simp
next
  case (Cons h rest)
  show ?case
  proof (cases "gen m (VCoordinationDatabase.Name db) n")
    case None
    with Cons.prems show ?thesis by simp
  next
    case (Some nm)
    define vNode where "vNode = setFromNodeConfig join
      \<lparr>NodeConfig.Address = h, NodeConfig.Name = nm, NodeConfig.Subcluster = sc\<rparr> db
      makeVCoordinationNode"
    obtain r db' where a: "addNode db vNode = (r, db')"
      by (cases "addNode db vNode")
    from addNode_inv [OF Cons.prems, of vNode] a have inv': "vdb_inv db'"
      by simp
    show ?thesis
    proof (cases "r = Return None")
      case True
      with Some a inv' Cons.IH [OF inv'] show ?thesis
        by (simp add: vNode_def [symmetric])
    next
      case False
      with Some a inv' show ?thesis
        by (simp add: vNode_def [symmetric] split: go.splits option.splits)
    qed
  qed
qed

lemma addNode_duplicate:
  "VCoordinationNode.Address vnode \<in> set (map fst (entries (HostNodeMap db))) \<Longrightarrow>
   (\<exists>e. fst (addNode db vnode) = Return (Some e)) \<and> snd (addNode db vnode) = db"
  by (auto simp: addNode_def map_of_eq_None_iff split: option.splits)

lemma addNode_fresh:
  "HostNodeMap db = Some al \<Longrightarrow> VCoordinationNode.Address vnode \<notin> set (map fst al) \<Longrightarrow>
   fst (addNode db vnode) = Return None \<and>
   HostList (snd (addNode db vnode)) = HostList db @ [VCoordinationNode.Address vnode] \<and>
   map_of (entries (HostNodeMap (snd (addNode db vnode)))) (VCoordinationNode.Address vnode) = Some vnode"
  by (auto simp: addNode_def entries_def map_of_eq_None_iff update_conv' split: option.splits)

text \<open>
  Claim C9. \<^verbatim>\<open>addNode\<close> and \<^verbatim>\<open>addHosts\<close> keep the invariant that \<^verbatim>\<open>HostList\<close> and the keys
  of \<^verbatim>\<open>HostNodeMap\<close> hold the same addresses and that \<^verbatim>\<open>HostList\<close> has no duplicates, whether
  they return nil, return an error or stop half-way. \<^verbatim>\<open>addNode\<close> returns an error and
  leaves \<^verbatim>\<open>HostList\<close> and \<^verbatim>\<open>HostNodeMap\<close> as they are when the node's address is already a
  key; for an address that is not yet a key of a non-nil map it returns nil, appends the
  address and stores the node.
\<close>

theorem C9_addNode_addHosts_invariant:
  "(vdb_inv db \<longrightarrow>
      vdb_inv (snd (addNode db vnode)) \<and> vdb_inv (snd (addHosts gen join hs sc db))) \<and>
   (VCoordinationNode.Address vnode \<in> set (map fst (entries (HostNodeMap db))) \<longrightarrow>
      (\<exists>e. fst (addNode db vnode) = Return (Some e)) \<and>
      HostList (snd (addNode db vnode)) = HostList db \<and>
      HostNodeMap (snd (addNode db vnode)) = HostNodeMap db) \<and>
   (HostNodeMap db = Some al \<and> VCoordinationNode.Address vnode \<notin> set (map fst al) \<longrightarrow>
      fst (addNode db vnode) = Return None \<and>
      HostList (snd (addNode db vnode)) = HostList db @ [VCoordinationNode.Address vnode] \<and>
      map_of (entries (HostNodeMap (snd (addNode db vnode)))) (VCoordinationNode.Address vnode) =
        Some vnode)"
proof (intro conjI impI)
  assume "vdb_inv db"
  then show "vdb_inv (snd (addNode db vnode))" by (rule addNode_inv)
next
  assume "vdb_inv db"
  then show "vdb_inv (snd (addHosts gen join hs sc db))"
    unfolding addHosts_def by (rule addHosts_loop_inv)
next
  assume d: "VCoordinationNode.Address vnode \<in> set (map fst (entries (HostNodeMap db)))"
  from addNode_duplicate [OF d] show "\<exists>e. fst (addNode db vnode) = Return (Some e)"
    and "HostList (snd (addNode db vnode)) = HostList db"
    and "HostNodeMap (snd (addNode db vnode)) = HostNodeMap db"
    by simp_all
next
  assume f: "HostNodeMap db = Some al \<and> VCoordinationNode.Address vnode \<notin> set (map fst al)"
  from addNode_fresh [of db al vnode] f show "fst (addNode db vnode) = Return None"
    and "HostList (snd (addNode db vnode)) = HostList db @ [VCoordinationNode.Address vnode]"
    and "map_of (entries (HostNodeMap (snd (addNode db vnode)))) (VCoordinationNode.Address vnode) =
        Some vnode"
    by simp_all
qed

theorem C9_addNode_addHosts_invariant_witness:
  "vdb_inv example_vdb \<and>
   vdb_inv (snd (addNode example_vdb (example_node ''10.0.0.2'' ''v_db_node0002''))) \<and>
   vdb_inv (snd (addHosts example_gen (intercalate ''/'') [''10.0.0.2'', ''10.0.0.1'', ''10.0.0.3'']
                   ''sc1'' example_vdb)) \<and>
   HostList (snd (addHosts example_gen (intercalate ''/'') [''10.0.0.2'', ''10.0.0.1'', ''10.0.0.3'']
                   ''sc1'' example_vdb)) = [''10.0.0.1'', ''10.0.0.2''] \<and>
   (\<exists>e. fst (addNode example_vdb (example_node ''10.0.0.1'' ''v_db_node0002'')) = Return (Some e)) \<and>
   HostList (snd (addNode example_vdb (example_node ''10.0.0.1'' ''v_db_node0002''))) = [''10.0.0.1''] \<and>
   HostList (snd (addNode example_vdb (example_node ''10.0.0.2'' ''v_db_node0002''))) =
     [''10.0.0.1'', ''10.0.0.2'']"
proof -
  have inv: "vdb_inv example_vdb"
    by (simp add: vdb_inv_def example_vdb_def entries_def)
  have dup: "VCoordinationNode.Address (example_node ''10.0.0.1'' ''v_db_node0002'')
      \<in> set (map fst (entries (HostNodeMap example_vdb)))"
    by (simp add: example_vdb_def example_node_def entries_def)
  have fresh: "HostNodeMap example_vdb = Some [(''10.0.0.1'', example_node ''10.0.0.1'' ''v_db_node0001'')] \<and>
      VCoordinationNode.Address (example_node ''10.0.0.2'' ''v_db_node0002'')
        \<notin> set (map fst [(''10.0.0.1'', example_node ''10.0.0.1'' ''v_db_node0001'')])"
    by (simp add: example_vdb_def example_node_def)
  note a = C9_addNode_addHosts_invariant [of example_vdb "example_node ''10.0.0.2'' ''v_db_node0002''"
      example_gen "intercalate ''/''" "[''10.0.0.2'', ''10.0.0.1'', ''10.0.0.3'']" "''sc1''"
      "[(''10.0.0.1'', example_node ''10.0.0.1'' ''v_db_node0001'')]"]
  note b = C9_addNode_addHosts_invariant [of example_vdb "example_node ''10.0.0.1'' ''v_db_node0002''"
      example_gen "intercalate ''/''" "[]" "''sc1''" "[]"]
  from a inv have i1: "vdb_inv (snd (addNode example_vdb (example_node ''10.0.0.2'' ''v_db_node0002'')))"
    and i2: "vdb_inv (snd (addHosts example_gen (intercalate ''/'') [''10.0.0.2'', ''10.0.0.1'', ''10.0.0.3'']
                   ''sc1'' example_vdb))"
    by blast+
  from b dup have d1: "\<exists>e. fst (addNode example_vdb (example_node ''10.0.0.1'' ''v_db_node0002'')) = Return (Some e)"
    and d2: "HostList (snd (addNode example_vdb (example_node ''10.0.0.1'' ''v_db_node0002''))) = HostList example_vdb"
    by blast+
  from a fresh have f1: "HostList (snd (addNode example_vdb (example_node ''10.0.0.2'' ''v_db_node0002''))) =
      HostList example_vdb @ [VCoordinationNode.Address (example_node ''10.0.0.2'' ''v_db_node0002'')]"
    by blast
  have hl: "HostList (snd (addHosts example_gen (intercalate ''/'') [''10.0.0.2'', ''10.0.0.1'', ''10.0.0.3'']
                   ''sc1'' example_vdb)) = [''10.0.0.1'', ''10.0.0.2'']"
    by (simp add: addHosts_def addNode_def example_vdb_def example_gen_def example_node_def
        entries_def genNodeNameToHostMap_def setFromNodeConfig_def makeVCoordinationNode_def)
  from d2 have d2': "HostList (snd (addNode example_vdb (example_node ''10.0.0.1'' ''v_db_node0002''))) = [''10.0.0.1'']"
    by (simp add: example_vdb_def)
  from f1 have f1': "HostList (snd (addNode example_vdb (example_node ''10.0.0.2'' ''v_db_node0002''))) =
     [''10.0.0.1'', ''10.0.0.2'']"
    by (simp add: example_vdb_def example_node_def)
  from inv i1 i2 hl d1 d2' f1' show ?thesis by (intro conjI)
qed


subsection \<open>Spread key material in the log\<close>

lemma spread_setupRequestBody_logs_details:
  "hosts op = h # hs \<Longrightarrow> nmaSpreadSecurityOp.catalogPathMap op h = Some p \<Longrightarrow>
   generateSecurityDetails (keyType op) src g = (Inr sd, g') \<Longrightarrow>
   sd \<in> set (logged_strings (snd (snd
     (nmaSpreadSecurityOp_setupRequestBody getCatalogPath marshal fmt_v_map src g op))))"
  by (auto simp: nmaSpreadSecurityOp_setupRequestBody_def logged_strings_def Let_def
      split: sum.splits prod.splits)

lemma upload_setupRequestBody_logs_payload:
  "encryptSpread op \<Longrightarrow> NMAUploadConfigOp.fileContent op = Some a \<Longrightarrow>
   \<exists>s \<in> set (logged_strings (snd (snd (snd
       (NMAUploadConfigOp_setupRequestBody marshal op hs st))))).
     strings_Contains s spreadKeyPayload"
proof -
  assume enc: "encryptSpread op" and fc: "NMAUploadConfigOp.fileContent op = Some a"
  let ?c = "st a @ [CHR 0x0A] @ ''# SPILLY added by me'' @ [CHR 0x0A] @ ''# VSpreadKey: '' @ spreadKeyPayload"
  have "sublist spreadKeyPayload ?c"
    by (metis append.assoc sublist_appendI append_Nil2)
  then have "strings_Contains ?c spreadKeyPayload"
    by (simp only: strings_Contains_sublist)
  moreover from enc fc have "?c \<in> set (logged_strings (snd (snd (snd
       (NMAUploadConfigOp_setupRequestBody marshal op hs st)))))"
    by (simp add: NMAUploadConfigOp_setupRequestBody_def logged_strings_def Let_def
        split: prod.splits)
  ultimately show ?thesis by blast
qed

text \<open>
  Claim C7. The claim says that no string passed to a log call holds the spread-key security
  details or the spread-key payload. The code passes both: with one host and the key type
  \<^verbatim>\<open>vertica\<close>, \<^verbatim>\<open>nmaSpreadSecurityOp.setupRequestBody\<close> hands the generated security details
  to \<^verbatim>\<open>op.log.Info\<close> under the key \<^verbatim>\<open>securityDetails\<close> and again inside the marshalled
  payload, and \<^verbatim>\<open>NMAUploadConfigOp.setupRequestBody\<close> in \<^verbatim>\<open>encryptSpread\<close> mode logs the file
  content with the payload appended.
\<close>

theorem C7_key_material_is_logged:
  "fst (generateSecurityDetails spreadKeyTypeVertica example_entropy example_rng) =
     Inr ''{4bip: c8ed12375c81a6cbf0153a5f84a9cef3183d6287acd1f61b40658aafd4f91e43}'' \<and>
   snd (snd (nmaSpreadSecurityOp_setupRequestBody (\<lambda>p. p) example_marshal_spread (\<lambda>m. [])
               example_entropy example_rng (example_spreadOp []))) =
     [LogInfo ''payload setup''
        [''catalogPath'', ''/data/db/v_db_node0001_catalog/Catalog'', ''securityDetails'',
         ''{4bip: c8ed12375c81a6cbf0153a5f84a9cef3183d6287acd1f61b40658aafd4f91e43}''],
      LogInfo ''mashaled payload''
        [''payload'',
         ''catalog_path=/data/db/v_db_node0001_catalog/Catalog;spread_security_details={4bip: c8ed12375c81a6cbf0153a5f84a9cef3183d6287acd1f61b40658aafd4f91e43}'']] \<and>
   snd (snd (snd (NMAUploadConfigOp_setupRequestBody example_marshal_upload
                    (example_uploadOp None [''10.0.0.1''] True) [''10.0.0.2'']
                    (\<lambda>a. ''# spread.conf'')))) =
     [LogInfo ''modified spread conf''
        [''contents'',
         ''# spread.conf'' @ [CHR 0x0A] @ ''# SPILLY added by me'' @ [CHR 0x0A] @
         ''# VSpreadKey: '' @ spreadKeyPayload]]"
proof (intro conjI)
  show "fst (generateSecurityDetails spreadKeyTypeVertica example_entropy example_rng) =
     Inr ''{4bip: c8ed12375c81a6cbf0153a5f84a9cef3183d6287acd1f61b40658aafd4f91e43}''"
    by code_simp
  show "snd (snd (nmaSpreadSecurityOp_setupRequestBody (\<lambda>p. p) example_marshal_spread (\<lambda>m. [])
               example_entropy example_rng (example_spreadOp []))) =
     [LogInfo ''payload setup''
        [''catalogPath'', ''/data/db/v_db_node0001_catalog/Catalog'', ''securityDetails'',
         ''{4bip: c8ed12375c81a6cbf0153a5f84a9cef3183d6287acd1f61b40658aafd4f91e43}''],
      LogInfo ''mashaled payload''
        [''payload'',
         ''catalog_path=/data/db/v_db_node0001_catalog/Catalog;spread_security_details={4bip: c8ed12375c81a6cbf0153a5f84a9cef3183d6287acd1f61b40658aafd4f91e43}'']]"
    by code_simp
  show "snd (snd (snd (NMAUploadConfigOp_setupRequestBody example_marshal_upload
                    (example_uploadOp None [''10.0.0.1''] True) [''10.0.0.2'']
                    (\<lambda>a. ''# spread.conf'')))) =
     [LogInfo ''modified spread conf''
        [''contents'',
         ''# spread.conf'' @ [CHR 0x0A] @ ''# SPILLY added by me'' @ [CHR 0x0A] @
         ''# VSpreadKey: '' @ spreadKeyPayload]]"
    by code_simp
qed


subsection \<open>Upload config: the hosts chosen by prepare\<close>

lemma set_SliceDiff: "set (SliceDiff m n) = set m - set n"
  by (auto simp: SliceDiff_def)

lemma setupRequestBody_keeps_hosts:
  "NMAUploadConfigOp_setupRequestBody marshal op hs st = (r, op', st', l) \<Longrightarrow>
   hosts op' = hosts op \<and> skipExecute op' = skipExecute op"
  by (auto simp: NMAUploadConfigOp_setupRequestBody_def Let_def
      split: option.splits if_splits prod.splits)

lemma prepare_requests_keeps_hosts:
  "NMAUploadConfigOp_prepare_requests marshal op ctx st l0 = (r, op', ctx', st', l) \<Longrightarrow>
   hosts op' = hosts op \<and> skipExecute op' = skipExecute op"
proof -
  assume a: "NMAUploadConfigOp_prepare_requests marshal op ctx st l0 = (r, op', ctx', st', l)"
  obtain r1 op1 st1 l1 where b:
    "NMAUploadConfigOp_setupRequestBody marshal op (hosts op) st = (r1, op1, st1, l1)"
    by (cases "NMAUploadConfigOp_setupRequestBody marshal op (hosts op) st") auto
  from setupRequestBody_keeps_hosts [OF b]
  have k: "hosts op1 = hosts op" "skipExecute op1 = skipExecute op" by simp_all
  from a b have "op' = op1 \<or> op' = NMAUploadConfigOp_setupClusterHTTPRequest op1 (hosts op1)"
    by (auto simp: NMAUploadConfigOp_prepare_requests_def split: go.splits option.splits)
  with k show ?thesis
    by (auto simp: NMAUploadConfigOp_setupClusterHTTPRequest_def)
qed

lemma fromCatalogEditor_keeps_hosts:
  "NMAUploadConfigOp_prepare_fromCatalogEditor upd marshal op1 ctx st = (r, op', ctx', st', l) \<Longrightarrow>
   hosts op' = hosts op1 \<and> skipExecute op' = skipExecute op1"
  by (auto simp: NMAUploadConfigOp_prepare_fromCatalogEditor_def
      split: prod.splits option.splits dest!: prepare_requests_keeps_hosts)

text \<open>
  Claim C2. Let \<^verbatim>\<open>prepare\<close> run on an operation whose \<^verbatim>\<open>vdb\<close> is nil or has an empty
  \<^verbatim>\<open>HostNodeMap\<close>. With a nil \<^verbatim>\<open>sourceConfigHost\<close>: if \<^verbatim>\<open>hostsWithLatestCatalog\<close> is empty,
  \<^verbatim>\<open>prepare\<close> returns an error; otherwise the hosts of the operation become exactly the
  destination hosts that are not among \<^verbatim>\<open>hostsWithLatestCatalog\<close>, and \<^verbatim>\<open>skipExecute\<close> (not
  set before) is set if and only if there is no such host, in which case \<^verbatim>\<open>prepare\<close>
  returns nil. With a non-nil \<^verbatim>\<open>sourceConfigHost\<close> the hosts become exactly the destination
  hosts that are not among the source hosts.
\<close>

theorem C2_upload_prepare_targets:
  "(case vdb op of None \<Rightarrow> True | Some v \<Rightarrow> entries (HostNodeMap v) = []) \<and>
   NMAUploadConfigOp_prepare upd getCatalogPath marshal op ctx st = (r, op', ctx', st', l) \<longrightarrow>
     (sourceConfigHost op = None \<and> hostsWithLatestCatalog ctx = [] \<longrightarrow>
        (\<exists>e. r = Return (Some e))) \<and>
     (sourceConfigHost op = None \<and> hostsWithLatestCatalog ctx \<noteq> [] \<longrightarrow>
        set (hosts op') = set (destHosts op) - set (hostsWithLatestCatalog ctx) \<and>
        (\<not> skipExecute op \<longrightarrow>
           (skipExecute op' \<longleftrightarrow> set (destHosts op) - set (hostsWithLatestCatalog ctx) = {})) \<and>
        (set (destHosts op) - set (hostsWithLatestCatalog ctx) = {} \<longrightarrow> r = Return None)) \<and>
     (\<forall>src. sourceConfigHost op = Some src \<longrightarrow>
        set (hosts op') = set (destHosts op) - set src)"
proof (intro impI, elim conjE)
  assume nov: "case vdb op of None \<Rightarrow> True | Some v \<Rightarrow> entries (HostNodeMap v) = []"
    and run: "NMAUploadConfigOp_prepare upd getCatalogPath marshal op ctx st = (r, op', ctx', st', l)"
  let ?op0 = "op\<lparr>NMAUploadConfigOp.catalogPathMap := Map.empty\<rparr>"
  from nov have nov0: "(case vdb ?op0 of None \<Rightarrow> True | Some v \<Rightarrow> length (entries (HostNodeMap v)) = 0)"
    by (simp split: option.splits)
  have a: "\<exists>e. r = Return (Some e)"
    if "sourceConfigHost op = None" and "hostsWithLatestCatalog ctx = []"
    using run that nov0 by (auto simp add: NMAUploadConfigOp_prepare_def)
  have b: "set (hosts op') = set (destHosts op) - set (hostsWithLatestCatalog ctx) \<and>
        (\<not> skipExecute op \<longrightarrow>
           (skipExecute op' \<longleftrightarrow> set (destHosts op) - set (hostsWithLatestCatalog ctx) = {})) \<and>
        (set (destHosts op) - set (hostsWithLatestCatalog ctx) = {} \<longrightarrow> r = Return None)"
    if s: "sourceConfigHost op = None" and h: "hostsWithLatestCatalog ctx \<noteq> []"
  proof (cases "SliceDiff (destHosts op) (hostsWithLatestCatalog ctx) = []")
    case True
    with run s h nov0
    have "op' = ?op0\<lparr>hosts := SliceDiff (destHosts op) (hostsWithLatestCatalog ctx), skipExecute := True\<rparr>"
      and "r = Return None"
      by (simp_all add: NMAUploadConfigOp_prepare_def Let_def)
    moreover from True have "set (destHosts op) - set (hostsWithLatestCatalog ctx) = {}"
      by (simp add: set_SliceDiff [symmetric])
    ultimately show ?thesis by (simp add: True)
  next
    case False
    let ?op1 = "?op0\<lparr>hosts := SliceDiff (destHosts op) (hostsWithLatestCatalog ctx)\<rparr>"
    from run s h nov0 False
    have "NMAUploadConfigOp_prepare_fromCatalogEditor upd marshal ?op1 ctx st = (r, op', ctx', st', l)"
      by (simp add: NMAUploadConfigOp_prepare_def Let_def)
    from fromCatalogEditor_keeps_hosts [OF this]
    have "hosts op' = SliceDiff (destHosts op) (hostsWithLatestCatalog ctx)"
      and "skipExecute op' = skipExecute op"
      by simp_all
    moreover from False have "set (destHosts op) - set (hostsWithLatestCatalog ctx) \<noteq> {}"
      by (simp add: set_SliceDiff [symmetric])
    ultimately show ?thesis by (simp add: set_SliceDiff)
  qed
  have c: "set (hosts op') = set (destHosts op) - set src" if s: "sourceConfigHost op = Some src" for src
  proof -
    let ?op1 = "?op0\<lparr>hosts := SliceDiff (destHosts op) src\<rparr>"
    from run s nov0
    have "NMAUploadConfigOp_prepare_fromCatalogEditor upd marshal ?op1 ctx st = (r, op', ctx', st', l)"
      by (simp add: NMAUploadConfigOp_prepare_def Let_def)
    from fromCatalogEditor_keeps_hosts [OF this] show ?thesis
      by (simp add: set_SliceDiff)
  qed
  from a b c show "(sourceConfigHost op = None \<and> hostsWithLatestCatalog ctx = [] \<longrightarrow>
        (\<exists>e. r = Return (Some e))) \<and>
     (sourceConfigHost op = None \<and> hostsWithLatestCatalog ctx \<noteq> [] \<longrightarrow>
        set (hosts op') = set (destHosts op) - set (hostsWithLatestCatalog ctx) \<and>
        (\<not> skipExecute op \<longrightarrow>
           (skipExecute op' \<longleftrightarrow> set (destHosts op) - set (hostsWithLatestCatalog ctx) = {})) \<and>
        (set (destHosts op) - set (hostsWithLatestCatalog ctx) = {} \<longrightarrow> r = Return None)) \<and>
     (\<forall>src. sourceConfigHost op = Some src \<longrightarrow>
        set (hosts op') = set (destHosts op) - set src)"
    by blast
qed

theorem C2_upload_prepare_targets_witness:
  "set (hosts (fst (snd (example_prepare None [''10.0.0.1'', ''10.0.0.2'', ''10.0.0.3'']
                           [''10.0.0.1'', ''10.0.0.2''])))) = {''10.0.0.3''} \<and>
   skipExecute (fst (snd (example_prepare None [''10.0.0.1'', ''10.0.0.2'', ''10.0.0.3'']
                            [''10.0.0.1'', ''10.0.0.2'']))) = False \<and>
   set (hosts (fst (snd (example_prepare None [''10.0.0.1'', ''10.0.0.2'']
                           [''10.0.0.2'', ''10.0.0.1''])))) = {} \<and>
   skipExecute (fst (snd (example_prepare None [''10.0.0.1'', ''10.0.0.2'']
                            [''10.0.0.2'', ''10.0.0.1'']))) = True \<and>
   fst (example_prepare None [''10.0.0.1'', ''10.0.0.2''] [''10.0.0.2'', ''10.0.0.1'']) = Return None \<and>
   (\<exists>e. fst (example_prepare None [''10.0.0.1'', ''10.0.0.2''] []) = Return (Some e)) \<and>
   set (hosts (fst (snd (example_prepare (Some [''10.0.0.1'']) [''10.0.0.1'', ''10.0.0.2'', ''10.0.0.3'']
                           [])))) = {''10.0.0.2'', ''10.0.0.3''}"
proof -
  have inst: "(sourceConfigHost (example_uploadOp src dest False) = None \<and>
        hostsWithLatestCatalog (example_context latest) = [] \<longrightarrow>
        (\<exists>e. fst (example_prepare src dest latest) = Return (Some e))) \<and>
     (sourceConfigHost (example_uploadOp src dest False) = None \<and>
        hostsWithLatestCatalog (example_context latest) \<noteq> [] \<longrightarrow>
        set (hosts (fst (snd (example_prepare src dest latest)))) =
          set (destHosts (example_uploadOp src dest False)) -
          set (hostsWithLatestCatalog (example_context latest)) \<and>
        (\<not> skipExecute (example_uploadOp src dest False) \<longrightarrow>
           (skipExecute (fst (snd (example_prepare src dest latest))) \<longleftrightarrow>
            set (destHosts (example_uploadOp src dest False)) -
            set (hostsWithLatestCatalog (example_context latest)) = {})) \<and>
        (set (destHosts (example_uploadOp src dest False)) -
         set (hostsWithLatestCatalog (example_context latest)) = {} \<longrightarrow>
           fst (example_prepare src dest latest) = Return None)) \<and>
     (\<forall>s. sourceConfigHost (example_uploadOp src dest False) = Some s \<longrightarrow>
        set (hosts (fst (snd (example_prepare src dest latest)))) =
          set (destHosts (example_uploadOp src dest False)) - set s)"
    for src dest latest
  proof -
    have nov: "case vdb (example_uploadOp src dest False) of None \<Rightarrow> True
        | Some v \<Rightarrow> entries (HostNodeMap v) = []"
      by (simp add: example_uploadOp_def)
    have run: "NMAUploadConfigOp_prepare example_upd (\<lambda>p. p) example_marshal_upload
        (example_uploadOp src dest False) (example_context latest) (\<lambda>a. ''# spread.conf'') =
        (fst (example_prepare src dest latest), fst (snd (example_prepare src dest latest)),
         fst (snd (snd (example_prepare src dest latest))),
         fst (snd (snd (snd (example_prepare src dest latest)))),
         snd (snd (snd (snd (example_prepare src dest latest)))))"
      by (simp add: example_prepare_def)
    from C2_upload_prepare_targets [rule_format, OF conjI, OF nov run] show ?thesis
      by blast
  qed
  have ops: "sourceConfigHost (example_uploadOp src dest False) = src"
    "destHosts (example_uploadOp src dest False) = dest"
    "skipExecute (example_uploadOp src dest False) = False"
    "hostsWithLatestCatalog (example_context latest) = latest" for src dest latest
    by (simp_all add: example_uploadOp_def example_context_def)
  from inst [of None "[''10.0.0.1'', ''10.0.0.2'', ''10.0.0.3'']" "[''10.0.0.1'', ''10.0.0.2'']"]
  have w1: "set (hosts (fst (snd (example_prepare None [''10.0.0.1'', ''10.0.0.2'', ''10.0.0.3'']
                           [''10.0.0.1'', ''10.0.0.2''])))) = {''10.0.0.3''}"
    and w2: "skipExecute (fst (snd (example_prepare None [''10.0.0.1'', ''10.0.0.2'', ''10.0.0.3'']
                            [''10.0.0.1'', ''10.0.0.2'']))) = False"
    unfolding ops by auto
  from inst [of None "[''10.0.0.1'', ''10.0.0.2'']" "[''10.0.0.2'', ''10.0.0.1'']"]
  have w3: "set (hosts (fst (snd (example_prepare None [''10.0.0.1'', ''10.0.0.2'']
                           [''10.0.0.2'', ''10.0.0.1''])))) = {}"
    and w4: "skipExecute (fst (snd (example_prepare None [''10.0.0.1'', ''10.0.0.2'']
                            [''10.0.0.2'', ''10.0.0.1'']))) = True"
    and w5: "fst (example_prepare None [''10.0.0.1'', ''10.0.0.2''] [''10.0.0.2'', ''10.0.0.1'']) = Return None"
    unfolding ops by auto
  from inst [of None "[''10.0.0.1'', ''10.0.0.2'']" "[]"]
  have w6: "\<exists>e. fst (example_prepare None [''10.0.0.1'', ''10.0.0.2''] []) = Return (Some e)"
    unfolding ops by simp
  from inst [of "Some [''10.0.0.1'']" "[''10.0.0.1'', ''10.0.0.2'', ''10.0.0.3'']" "[]"]
  have w7: "set (hosts (fst (snd (example_prepare (Some [''10.0.0.1'']) [''10.0.0.1'', ''10.0.0.2'', ''10.0.0.3'']
                           [])))) = {''10.0.0.2'', ''10.0.0.3''}"
    unfolding ops by auto
  from w1 w2 w3 w4 w5 w6 w7 show ?thesis by (intro conjI)
qed

subsection \<open>The engine: the order of the calls\<close>

lemma failed_at_simps:
  "failed_at i skip Prepare e = [Called i Prepare (Some e)]"
  "failed_at i False LoadCertsIfNeeded e =
     [Called i Prepare None, SkipExecute i False, Called i LoadCertsIfNeeded (Some e)]"
  "failed_at i False Execute e =
     [Called i Prepare None, SkipExecute i False, Called i LoadCertsIfNeeded None,
      Called i Execute (Some e)]"
  "failed_at i False Finalize e =
     [Called i Prepare None, SkipExecute i False, Called i LoadCertsIfNeeded None,
      Called i Execute None, Called i Finalize (Some e)]"
  "failed_at i True Finalize e =
     [Called i Prepare None, SkipExecute i True, Called i Finalize (Some e)]"
  by (simp_all add: failed_at_def lifecycle_def)

lemma run_finalize_observed:
  assumes "run_finalize (\<lambda>msg. unobserved (pw msg)) (observed i op) (s, tr0) = (res, s', tr)"
    and "tr0 = tr1 @ takeWhile (\<lambda>ev. ev \<noteq> Called i Finalize None) (lifecycle i skip)"
  shows "run_finalize pw op s = (res, s') \<and>
    ((res = None \<and> tr = tr1 @ lifecycle i skip) \<or>
     (\<exists>e. res = Some (step_error Finalize (getName op s') e) \<and> tr = tr1 @ failed_at i skip Finalize e))"
proof -
  obtain r s2 where fin: "finalize op (logFinalize op s) = (r, s2)"
    by (cases "finalize op (logFinalize op s)")
  have lc: "lifecycle i skip =
      takeWhile (\<lambda>ev. ev \<noteq> Called i Finalize None) (lifecycle i skip) @ [Called i Finalize None]"
    by (simp add: lifecycle_def)
  show ?thesis
  proof (cases r)
    case None
    with assms(1) fin have "res = None" and "s' = pw (''['' @ getName op s2 @ ''] is successfully completed'') s2"
      and "tr = tr0 @ [Called i Finalize None]"
      by (auto simp: run_finalize_def observed_def noted_def unobserved_def)
    moreover from this(3) assms(2) lc have "tr = tr1 @ lifecycle i skip"
      by (metis append.assoc)
    ultimately show ?thesis
      using fin None by (simp add: run_finalize_def)
  next
    case (Some e)
    with assms(1) fin have "res = Some (Errorf_w ''finalize failed '' e [])" and "s' = s2"
      and "tr = tr0 @ [Called i Finalize (Some e)]"
      by (auto simp: run_finalize_def observed_def noted_def unobserved_def)
    moreover from this(3) assms(2) have "tr = tr1 @ failed_at i skip Finalize e"
      by (simp add: failed_at_def)
    ultimately show ?thesis
      using fin Some by (auto simp: run_finalize_def step_error_def)
  qed
qed

lemma observed_failsI:
  assumes "plain = (res, s')" and "res = Some (step_error m nm e)"
    and "skip \<longrightarrow> m = Prepare \<or> m = Finalize" and "tr = tr0 @ failed_at i skip m e"
  shows "plain = (res, s') \<and>
    ((res = None \<and> (\<exists>skip. tr = tr0 @ lifecycle i skip)) \<or>
     (\<exists>skip m e. res = Some (step_error m nm e) \<and>
        (skip \<longrightarrow> m = Prepare \<or> m = Finalize) \<and> tr = tr0 @ failed_at i skip m e))"
  using assms by blast

lemma observed_finalizeI:
  assumes "plain = (res, s')"
    and "(res = None \<and> tr = tr0 @ lifecycle i skip) \<or>
      (\<exists>e. res = Some (step_error Finalize nm e) \<and> tr = tr0 @ failed_at i skip Finalize e)"
  shows "plain = (res, s') \<and>
    ((res = None \<and> (\<exists>skip. tr = tr0 @ lifecycle i skip)) \<or>
     (\<exists>skip m e. res = Some (step_error m nm e) \<and>
        (skip \<longrightarrow> m = Prepare \<or> m = Finalize) \<and> tr = tr0 @ failed_at i skip m e))"
  using assms by blast

lemma run_instruction_observed:
  assumes run: "run_instruction cs f (\<lambda>msg. unobserved (pw msg)) (observed i op) (s, tr0) = (res, s', tr)"
  shows "run_instruction cs f pw op s = (res, s') \<and>
    ((res = None \<and> (\<exists>skip. tr = tr0 @ lifecycle i skip)) \<or>
     (\<exists>skip m e. res = Some (step_error m (getName op s') e) \<and>
        (skip \<longrightarrow> m = Prepare \<or> m = Finalize) \<and> tr = tr0 @ failed_at i skip m e))"
proof -
  obtain r1 s1 where p: "prepare op (logPrepare op (setupBasicInfo op s)) = (r1, s1)"
    by (cases "prepare op (logPrepare op (setupBasicInfo op s))")
  show ?thesis
  proof (cases r1)
    case (Some e)
    with run p
    have r: "res = Some (step_error Prepare (getName op s') e)" and st: "s' = s1"
      and t: "tr = tr0 @ failed_at i False Prepare e"
      by (auto simp: run_instruction_def observed_def noted_def unobserved_def step_error_def
          failed_at_simps)
    from p Some r st have pl: "run_instruction cs f pw op s = (res, s')"
      by (simp add: run_instruction_def step_error_def)
    show ?thesis by (rule observed_failsI [OF pl r _ t]) simp
  next
    case None
    show ?thesis
    proof (cases "isSkipExecute op s1")
      case True
      with run p None
      have fin: "run_finalize (\<lambda>msg. unobserved (pw msg)) (observed i op)
          (s1, tr0 @ [Called i Prepare None, SkipExecute i True]) = (res, s', tr)"
        by (simp add: run_instruction_def observed_def noted_def unobserved_def)
      have "tr0 @ [Called i Prepare None, SkipExecute i True] =
          tr0 @ takeWhile (\<lambda>ev. ev \<noteq> Called i Finalize None) (lifecycle i True)"
        by (simp add: lifecycle_def)
      from run_finalize_observed [OF fin this]
      have f1: "run_finalize pw op s1 = (res, s')"
        and f2: "(res = None \<and> tr = tr0 @ lifecycle i True) \<or>
          (\<exists>e. res = Some (step_error Finalize (getName op s') e) \<and>
             tr = tr0 @ failed_at i True Finalize e)"
        by simp_all
      from p None True f1 have pl: "run_instruction cs f pw op s = (res, s')"
        by (simp add: run_instruction_def)
      show ?thesis by (rule observed_finalizeI [OF pl f2])
    next
      case False
      obtain r2 s2 where l: "loadCertsIfNeeded op cs f s1 = (r2, s2)"
        by (cases "loadCertsIfNeeded op cs f s1")
      show ?thesis
      proof (cases r2)
        case (Some e)
        with run p None False l
        have r: "res = Some (step_error LoadCertsIfNeeded (getName op s') e)" and st: "s' = s2"
          and t: "tr = tr0 @ failed_at i False LoadCertsIfNeeded e"
          by (auto simp: run_instruction_def observed_def noted_def unobserved_def step_error_def
              failed_at_simps)
        from p None False l Some r st have pl: "run_instruction cs f pw op s = (res, s')"
          by (simp add: run_instruction_def step_error_def)
        show ?thesis by (rule observed_failsI [OF pl r _ t]) simp
      next
        case r2None: None
        obtain r3 s3 where x: "execute op (logExecute op s2) = (r3, s3)"
          by (cases "execute op (logExecute op s2)")
        show ?thesis
        proof (cases r3)
          case (Some e)
          with run p None False l r2None x
          have r: "res = Some (step_error Execute (getName op s') e)" and st: "s' = s3"
            and t: "tr = tr0 @ failed_at i False Execute e"
            by (auto simp: run_instruction_def observed_def noted_def unobserved_def step_error_def
                failed_at_simps)
          from p None False l r2None x Some r st have pl: "run_instruction cs f pw op s = (res, s')"
            by (simp add: run_instruction_def step_error_def)
          show ?thesis by (rule observed_failsI [OF pl r _ t]) simp
        next
          case r3None: None
          with run p None False l r2None x
          have fin: "run_finalize (\<lambda>msg. unobserved (pw msg)) (observed i op)
              (s3, tr0 @ [Called i Prepare None, SkipExecute i False,
                 Called i LoadCertsIfNeeded None, Called i Execute None]) = (res, s', tr)"
            by (simp add: run_instruction_def observed_def noted_def unobserved_def)
          have "tr0 @ [Called i Prepare None, SkipExecute i False,
                 Called i LoadCertsIfNeeded None, Called i Execute None] =
              tr0 @ takeWhile (\<lambda>ev. ev \<noteq> Called i Finalize None) (lifecycle i False)"
            by (simp add: lifecycle_def)
          from run_finalize_observed [OF fin this]
          have f1: "run_finalize pw op s3 = (res, s')"
            and f2: "(res = None \<and> tr = tr0 @ lifecycle i False) \<or>
              (\<exists>e. res = Some (step_error Finalize (getName op s') e) \<and>
                 tr = tr0 @ failed_at i False Finalize e)"
            by simp_all
          from p None False l r2None x r3None f1 have pl: "run_instruction cs f pw op s = (res, s')"
            by (simp add: run_instruction_def)
          show ?thesis by (rule observed_finalizeI [OF pl f2])
        qed
      qed
    qed
  qed
qed

lemma run_loop_observed:
  "run_loop cs f (\<lambda>msg. unobserved (pw msg)) (observed_plan i ops) (s, tr0) = (res, s', tr) \<Longrightarrow>
   run_loop cs f pw ops s = (res, s') \<and>
   (\<exists>skips.
     (res = None \<longrightarrow> length skips = length ops \<and> tr = tr0 @ completed i skips) \<and>
     (\<forall>err. res = Some err \<longrightarrow> length skips < length ops \<and>
        (\<exists>skip m e. (skip \<longrightarrow> m = Prepare \<or> m = Finalize) \<and>
           tr = tr0 @ completed i skips @ failed_at (i + length skips) skip m e \<and>
           err = step_error m (getName (ops ! length skips) s') e)))"
proof (induction ops arbitrary: i s tr0 res s' tr)
  case Nil
  then have "res = None" and "s' = s" and "tr = tr0 @ completed i []" by simp_all
  then show ?case by (intro conjI exI [of _ "[]"]) simp_all
next
  case (Cons op ops)
  obtain r1 s1 t1 where one:
    "run_instruction cs f (\<lambda>msg. unobserved (pw msg)) (observed i op) (s, tr0) = (r1, s1, t1)"
    by (cases "run_instruction cs f (\<lambda>msg. unobserved (pw msg)) (observed i op) (s, tr0)")
  from run_instruction_observed [OF one] have plain: "run_instruction cs f pw op s = (r1, s1)"
    by simp
  from run_instruction_observed [OF one] consider
    (ok) skip where "r1 = None" "t1 = tr0 @ lifecycle i skip"
    | (bad) skip m e where "r1 = Some (step_error m (getName op s1) e)"
        "skip \<longrightarrow> m = Prepare \<or> m = Finalize" "t1 = tr0 @ failed_at i skip m e"
    by blast
  then show ?case
  proof cases
    case ok
    from Cons.prems one ok
    have rest: "run_loop cs f (\<lambda>msg. unobserved (pw msg)) (observed_plan (Suc i) ops) (s1, t1) =
        (res, s', tr)"
      by simp
    from Cons.IH [OF rest] obtain skips where
      pl: "run_loop cs f pw ops s1 = (res, s')"
      and a: "res = None \<longrightarrow> length skips = length ops \<and> tr = t1 @ completed (Suc i) skips"
      and b: "\<forall>err. res = Some err \<longrightarrow> length skips < length ops \<and>
        (\<exists>skip m e. (skip \<longrightarrow> m = Prepare \<or> m = Finalize) \<and>
           tr = t1 @ completed (Suc i) skips @ failed_at (Suc i + length skips) skip m e \<and>
           err = step_error m (getName (ops ! length skips) s') e)"
      by blast
    have "run_loop cs f pw (op # ops) s = (res, s')"
      using plain ok pl by simp
    moreover have "\<exists>skips.
     (res = None \<longrightarrow> length skips = length (op # ops) \<and> tr = tr0 @ completed i skips) \<and>
     (\<forall>err. res = Some err \<longrightarrow> length skips < length (op # ops) \<and>
        (\<exists>skip m e. (skip \<longrightarrow> m = Prepare \<or> m = Finalize) \<and>
           tr = tr0 @ completed i skips @ failed_at (i + length skips) skip m e \<and>
           err = step_error m (getName ((op # ops) ! length skips) s') e))"
    proof (intro exI [of _ "skip # skips"] conjI allI impI)
      assume "res = None"
      with a ok show "length (skip # skips) = length (op # ops)"
        and "tr = tr0 @ completed i (skip # skips)" by simp_all
    next
      fix err assume "res = Some err"
      with b ok show "length (skip # skips) < length (op # ops)"
        and "\<exists>skip' m e. (skip' \<longrightarrow> m = Prepare \<or> m = Finalize) \<and>
           tr = tr0 @ completed i (skip # skips) @ failed_at (i + length (skip # skips)) skip' m e \<and>
           err = step_error m (getName ((op # ops) ! length (skip # skips)) s') e"
        by auto
    qed
    ultimately show ?thesis by blast
  next
    case bad
    from Cons.prems one bad have eq: "res = Some (step_error m (getName op s1) e)" "s' = s1"
      "tr = tr0 @ failed_at i skip m e"
      by auto
    have "run_loop cs f pw (op # ops) s = (res, s')"
      using plain bad eq by simp
    moreover have "\<exists>skips.
     (res = None \<longrightarrow> length skips = length (op # ops) \<and> tr = tr0 @ completed i skips) \<and>
     (\<forall>err. res = Some err \<longrightarrow> length skips < length (op # ops) \<and>
        (\<exists>skip m e. (skip \<longrightarrow> m = Prepare \<or> m = Finalize) \<and>
           tr = tr0 @ completed i skips @ failed_at (i + length skips) skip m e \<and>
           err = step_error m (getName ((op # ops) ! length skips) s') e))"
      by (intro exI [of _ "[]"]) (use eq bad in auto)
    ultimately show ?thesis by blast
  qed
qed


lemma shouldGetCertsFromOptions_observed:
  "shouldGetCertsFromOptions (observed_engine eng) = shouldGetCertsFromOptions eng"
  by (simp add: shouldGetCertsFromOptions_def observed_engine_def)

lemma Unwrap_step_error: "Unwrap (step_error m nm e) = Some e"
  by (cases m) (simp_all add: step_error_def Errorf_w_def)

text \<open>
  Claim C1, as stated, says that \<^verbatim>\<open>run\<close> returns the error that the failing call returned.
  It does not: a plan whose only operation fails in execute with ``no route to host'' makes
  \<^verbatim>\<open>run\<close> return a new error, ``execute C failed, details: no route to host'', which wraps
  the error of the call.
\<close>

theorem C1_returned_error_counterexample:
  "fst (execute (example_op ''C'' False (Some Execute)) [''C.prepare'', ''C.loadCertsIfNeeded'']) =
     Some (ErrorString ''no route to host'') \<and>
   fst (run id example_print (example_engine [example_op ''C'' False (Some Execute)]) []) =
     Some (WrapError ''execute C failed, details: no route to host''
             (ErrorString ''no route to host'')) \<and>
   fst (run id example_print (example_engine [example_op ''C'' False (Some Execute)]) []) \<noteq>
     Some (ErrorString ''no route to host'')"
  by code_simp

text \<open>
  Claim C1, amended. Take any plan and note every call of a lifecycle method together with
  what it returned. Noting the calls changes neither what \<^verbatim>\<open>run\<close> returns nor the state it
  leaves. The calls \<^verbatim>\<open>run\<close> makes are these, in this order: for the operations of an
  initial part of the plan, one after the other, prepare, then cert loading and execute
  unless \<^verbatim>\<open>isSkipExecute\<close> answers true in the state prepare left (then neither is called),
  then finalize, each called once and returning nil. If \<^verbatim>\<open>run\<close> returns nil, that part is
  the whole plan. If \<^verbatim>\<open>run\<close> returns an error, the next operation of the plan was called
  in the same order up to a call that returned an error \<open>e\<close>; that call is the last call
  made, so no method of a later operation is called, and the error \<^verbatim>\<open>run\<close> returns is \<open>e\<close>
  wrapped with \<^verbatim>\<open>%w\<close> behind the name of the step. Each call noted carries the value the
  operation's own method returned.
\<close>

theorem C1_run_lifecycle:
  "(observed_run mk pw eng s = (res, s', tr) \<longrightarrow>
      run mk pw eng s = (res, s') \<and>
      (\<exists>skips.
         (res = None \<longrightarrow> length skips = length (instructions eng) \<and> tr = completed 0 skips) \<and>
         (\<forall>err. res = Some err \<longrightarrow> length skips < length (instructions eng) \<and>
            (\<exists>skip m e. (skip \<longrightarrow> m = Prepare \<or> m = Finalize) \<and>
               tr = completed 0 skips @ failed_at (length skips) skip m e \<and>
               err = step_error m (getName (instructions eng ! length skips) s') e \<and>
               Unwrap err = Some e)))) \<and>
   prepare (observed i op) (s0, tr0) =
     (fst (prepare op s0), snd (prepare op s0),
      tr0 @ Called i Prepare (fst (prepare op s0)) #
        (if fst (prepare op s0) = None then [SkipExecute i (isSkipExecute op (snd (prepare op s0)))]
         else [])) \<and>
   loadCertsIfNeeded (observed i op) cs f (s0, tr0) =
     (fst (loadCertsIfNeeded op cs f s0), snd (loadCertsIfNeeded op cs f s0),
      tr0 @ [Called i LoadCertsIfNeeded (fst (loadCertsIfNeeded op cs f s0))]) \<and>
   execute (observed i op) (s0, tr0) =
     (fst (execute op s0), snd (execute op s0), tr0 @ [Called i Execute (fst (execute op s0))]) \<and>
   finalize (observed i op) (s0, tr0) =
     (fst (finalize op s0), snd (finalize op s0), tr0 @ [Called i Finalize (fst (finalize op s0))]) \<and>
   isSkipExecute (observed i op) (s0, tr0) = isSkipExecute op s0"
proof -
  have main: "run mk pw eng s = (res, s') \<and>
      (\<exists>skips.
         (res = None \<longrightarrow> length skips = length (instructions eng) \<and> tr = completed 0 skips) \<and>
         (\<forall>err. res = Some err \<longrightarrow> length skips < length (instructions eng) \<and>
            (\<exists>skip m e. (skip \<longrightarrow> m = Prepare \<or> m = Finalize) \<and>
               tr = completed 0 skips @ failed_at (length skips) skip m e \<and>
               err = step_error m (getName (instructions eng ! length skips) s') e \<and>
               Unwrap err = Some e)))"
    if obs: "observed_run mk pw eng s = (res, s', tr)"
  proof -
    from obs have "run_loop (certs eng) (shouldGetCertsFromOptions eng) (\<lambda>msg. unobserved (pw msg))
        (observed_plan 0 (instructions eng)) (mk s, []) = (res, s', tr)"
      by (simp add: observed_run_def run_def shouldGetCertsFromOptions_observed unobserved_def)
        (simp add: observed_engine_def)
    from run_loop_observed [OF this] obtain skips where
      pl: "run_loop (certs eng) (shouldGetCertsFromOptions eng) pw (instructions eng) (mk s) = (res, s')"
      and a: "res = None \<longrightarrow> length skips = length (instructions eng) \<and> tr = [] @ completed 0 skips"
      and b: "\<forall>err. res = Some err \<longrightarrow> length skips < length (instructions eng) \<and>
        (\<exists>skip m e. (skip \<longrightarrow> m = Prepare \<or> m = Finalize) \<and>
           tr = [] @ completed 0 skips @ failed_at (0 + length skips) skip m e \<and>
           err = step_error m (getName (instructions eng ! length skips) s') e)"
      by blast
    from pl have "run mk pw eng s = (res, s')"
      by (simp add: run_def)
    moreover from a have "res = None \<longrightarrow> length skips = length (instructions eng) \<and> tr = completed 0 skips"
      by simp
    moreover have "\<forall>err. res = Some err \<longrightarrow> length skips < length (instructions eng) \<and>
        (\<exists>skip m e. (skip \<longrightarrow> m = Prepare \<or> m = Finalize) \<and>
           tr = completed 0 skips @ failed_at (length skips) skip m e \<and>
           err = step_error m (getName (instructions eng ! length skips) s') e \<and>
           Unwrap err = Some e)"
    proof (intro allI impI)
      fix err assume "res = Some err"
      with b obtain skip m e where lt: "length skips < length (instructions eng)"
        and sk: "skip \<longrightarrow> m = Prepare \<or> m = Finalize"
        and t: "tr = [] @ completed 0 skips @ failed_at (0 + length skips) skip m e"
        and er: "err = step_error m (getName (instructions eng ! length skips) s') e"
        by blast
      from t have t': "tr = completed 0 skips @ failed_at (length skips) skip m e"
        by simp
      from er have u: "Unwrap err = Some e"
        by (simp add: Unwrap_step_error)
      from sk t' er u have "(skip \<longrightarrow> m = Prepare \<or> m = Finalize) \<and>
           tr = completed 0 skips @ failed_at (length skips) skip m e \<and>
           err = step_error m (getName (instructions eng ! length skips) s') e \<and>
           Unwrap err = Some e"
        by (intro conjI)
      then have "\<exists>skip m e. (skip \<longrightarrow> m = Prepare \<or> m = Finalize) \<and>
           tr = completed 0 skips @ failed_at (length skips) skip m e \<and>
           err = step_error m (getName (instructions eng ! length skips) s') e \<and>
           Unwrap err = Some e"
        by (intro exI)
      with lt show "length skips < length (instructions eng) \<and>
        (\<exists>skip m e. (skip \<longrightarrow> m = Prepare \<or> m = Finalize) \<and>
           tr = completed 0 skips @ failed_at (length skips) skip m e \<and>
           err = step_error m (getName (instructions eng ! length skips) s') e \<and>
           Unwrap err = Some e)"
        by (rule conjI)
    qed
    ultimately show ?thesis by (intro conjI exI [of _ skips])
  qed
  have wrap: "prepare (observed i op) (s0, tr0) =
     (fst (prepare op s0), snd (prepare op s0),
      tr0 @ Called i Prepare (fst (prepare op s0)) #
        (if fst (prepare op s0) = None then [SkipExecute i (isSkipExecute op (snd (prepare op s0)))]
         else []))"
    "loadCertsIfNeeded (observed i op) cs f (s0, tr0) =
     (fst (loadCertsIfNeeded op cs f s0), snd (loadCertsIfNeeded op cs f s0),
      tr0 @ [Called i LoadCertsIfNeeded (fst (loadCertsIfNeeded op cs f s0))])"
    "execute (observed i op) (s0, tr0) =
     (fst (execute op s0), snd (execute op s0), tr0 @ [Called i Execute (fst (execute op s0))])"
    "finalize (observed i op) (s0, tr0) =
     (fst (finalize op s0), snd (finalize op s0), tr0 @ [Called i Finalize (fst (finalize op s0))])"
    "isSkipExecute (observed i op) (s0, tr0) = isSkipExecute op s0"
    by (simp_all add: observed_def noted_def split: prod.splits)
  from main have first: "observed_run mk pw eng s = (res, s', tr) \<longrightarrow>
      run mk pw eng s = (res, s') \<and>
      (\<exists>skips.
         (res = None \<longrightarrow> length skips = length (instructions eng) \<and> tr = completed 0 skips) \<and>
         (\<forall>err. res = Some err \<longrightarrow> length skips < length (instructions eng) \<and>
            (\<exists>skip m e. (skip \<longrightarrow> m = Prepare \<or> m = Finalize) \<and>
               tr = completed 0 skips @ failed_at (length skips) skip m e \<and>
               err = step_error m (getName (instructions eng ! length skips) s') e \<and>
               Unwrap err = Some e)))"
    by (rule impI)
  show ?thesis
    by (rule conjI first wrap)+
qed

theorem C1_run_lifecycle_witness:
  "example_run [example_op ''A'' False None, example_op ''B'' True None,
                example_op ''C'' False (Some Execute), example_op ''D'' False None] =
     (Some (step_error Execute ''C'' example_error),
      [''A.prepare'', ''A.loadCertsIfNeeded'', ''A.execute'', ''A.finalize'',
       ''[A] is successfully completed'', ''B.prepare'', ''B.finalize'',
       ''[B] is successfully completed'', ''C.prepare'', ''C.loadCertsIfNeeded'', ''C.execute''],
      completed 0 [False, True] @ failed_at 2 False Execute example_error) \<and>
   run id example_print
       (example_engine [example_op ''A'' False None, example_op ''B'' True None,
                        example_op ''C'' False (Some Execute), example_op ''D'' False None]) [] =
     (Some (step_error Execute ''C'' example_error),
      [''A.prepare'', ''A.loadCertsIfNeeded'', ''A.execute'', ''A.finalize'',
       ''[A] is successfully completed'', ''B.prepare'', ''B.finalize'',
       ''[B] is successfully completed'', ''C.prepare'', ''C.loadCertsIfNeeded'', ''C.execute'']) \<and>
   example_run [example_op ''A'' False None, example_op ''B'' True (Some Finalize),
                example_op ''D'' False None] =
     (Some (step_error Finalize ''B'' example_error),
      [''A.prepare'', ''A.loadCertsIfNeeded'', ''A.execute'', ''A.finalize'',
       ''[A] is successfully completed'', ''B.prepare'', ''B.finalize''],
      completed 0 [False] @ failed_at 1 True Finalize example_error) \<and>
   run id example_print
       (example_engine [example_op ''A'' False None, example_op ''B'' True (Some Finalize),
                        example_op ''D'' False None]) [] =
     (Some (step_error Finalize ''B'' example_error),
      [''A.prepare'', ''A.loadCertsIfNeeded'', ''A.execute'', ''A.finalize'',
       ''[A] is successfully completed'', ''B.prepare'', ''B.finalize'']) \<and>
   (\<exists>skips skip m e.
      length skips < 3 \<and>
      completed 0 [False] @ failed_at 1 True Finalize example_error =
        completed 0 skips @ failed_at (length skips) skip m e \<and>
      Unwrap (step_error Finalize ''B'' example_error) = Some e) \<and>
   example_run [example_op ''A'' False (Some Prepare), example_op ''D'' False None] =
     (Some (step_error Prepare ''A'' example_error), [''A.prepare''],
      failed_at 0 False Prepare example_error) \<and>
   run id example_print
       (example_engine [example_op ''A'' False (Some Prepare), example_op ''D'' False None]) [] =
     (Some (step_error Prepare ''A'' example_error), [''A.prepare'']) \<and>
   example_run [example_op ''A'' False None, example_op ''B'' False (Some LoadCertsIfNeeded),
                example_op ''D'' False None] =
     (Some (step_error LoadCertsIfNeeded ''B'' example_error),
      [''A.prepare'', ''A.loadCertsIfNeeded'', ''A.execute'', ''A.finalize'',
       ''[A] is successfully completed'', ''B.prepare'', ''B.loadCertsIfNeeded''],
      completed 0 [False] @ failed_at 1 False LoadCertsIfNeeded example_error) \<and>
   run id example_print
       (example_engine [example_op ''A'' False None, example_op ''B'' False (Some LoadCertsIfNeeded),
                        example_op ''D'' False None]) [] =
     (Some (step_error LoadCertsIfNeeded ''B'' example_error),
      [''A.prepare'', ''A.loadCertsIfNeeded'', ''A.execute'', ''A.finalize'',
       ''[A] is successfully completed'', ''B.prepare'', ''B.loadCertsIfNeeded'']) \<and>
   example_run [example_op ''A'' False None, example_op ''B'' True None] =
     (None,
      [''A.prepare'', ''A.loadCertsIfNeeded'', ''A.execute'', ''A.finalize'',
       ''[A] is successfully completed'', ''B.prepare'', ''B.finalize'',
       ''[B] is successfully completed''],
      completed 0 [False, True]) \<and>
   run id example_print (example_engine [example_op ''A'' False None, example_op ''B'' True None]) [] =
     (None,
      [''A.prepare'', ''A.loadCertsIfNeeded'', ''A.execute'', ''A.finalize'',
       ''[A] is successfully completed'', ''B.prepare'', ''B.finalize'',
       ''[B] is successfully completed''])"
proof -
  have e1: "example_run [example_op ''A'' False None, example_op ''B'' True None,
                example_op ''C'' False (Some Execute), example_op ''D'' False None] =
     (Some (step_error Execute ''C'' example_error),
      [''A.prepare'', ''A.loadCertsIfNeeded'', ''A.execute'', ''A.finalize'',
       ''[A] is successfully completed'', ''B.prepare'', ''B.finalize'',
       ''[B] is successfully completed'', ''C.prepare'', ''C.loadCertsIfNeeded'', ''C.execute''],
      completed 0 [False, True] @ failed_at 2 False Execute example_error)"
    by code_simp
  have e2: "example_run [example_op ''A'' False None, example_op ''B'' True (Some Finalize),
                example_op ''D'' False None] =
     (Some (step_error Finalize ''B'' example_error),
      [''A.prepare'', ''A.loadCertsIfNeeded'', ''A.execute'', ''A.finalize'',
       ''[A] is successfully completed'', ''B.prepare'', ''B.finalize''],
      completed 0 [False] @ failed_at 1 True Finalize example_error)"
    by code_simp
  have e3: "example_run [example_op ''A'' False (Some Prepare), example_op ''D'' False None] =
     (Some (step_error Prepare ''A'' example_error), [''A.prepare''],
      failed_at 0 False Prepare example_error)"
    by code_simp
  have e4: "example_run [example_op ''A'' False None, example_op ''B'' False (Some LoadCertsIfNeeded),
                example_op ''D'' False None] =
     (Some (step_error LoadCertsIfNeeded ''B'' example_error),
      [''A.prepare'', ''A.loadCertsIfNeeded'', ''A.execute'', ''A.finalize'',
       ''[A] is successfully completed'', ''B.prepare'', ''B.loadCertsIfNeeded''],
      completed 0 [False] @ failed_at 1 False LoadCertsIfNeeded example_error)"
    by code_simp
  have e5: "example_run [example_op ''A'' False None, example_op ''B'' True None] =
     (None,
      [''A.prepare'', ''A.loadCertsIfNeeded'', ''A.execute'', ''A.finalize'',
       ''[A] is successfully completed'', ''B.prepare'', ''B.finalize'',
       ''[B] is successfully completed''],
      completed 0 [False, True])"
    by code_simp
  note c1 = C1_run_lifecycle [THEN conjunct1, THEN mp, OF e1 [unfolded example_run_def]]
  note c2 = C1_run_lifecycle [THEN conjunct1, THEN mp, OF e2 [unfolded example_run_def]]
  note c3 = C1_run_lifecycle [THEN conjunct1, THEN mp, OF e3 [unfolded example_run_def]]
  note c4 = C1_run_lifecycle [THEN conjunct1, THEN mp, OF e4 [unfolded example_run_def]]
  note c5 = C1_run_lifecycle [THEN conjunct1, THEN mp, OF e5 [unfolded example_run_def]]
  define T where "T = completed 0 [False] @ failed_at 1 True Finalize example_error"
  define X where "X = step_error Finalize ''B'' example_error"
  define n where "n = length (instructions (example_engine
      [example_op ''A'' False None, example_op ''B'' True (Some Finalize), example_op ''D'' False None]))"
  have n3: "n = 3" by (simp add: n_def example_engine_def)
  from c2 [THEN conjunct2, folded T_def X_def n_def]
  obtain skips where "\<forall>err. Some X = Some err \<longrightarrow> length skips < n \<and>
      (\<exists>skip m e. (skip \<longrightarrow> m = Prepare \<or> m = Finalize) \<and>
         T = completed 0 skips @ failed_at (length skips) skip m e \<and>
         Unwrap err = Some e)"
    by blast
  then obtain skip m e where "length skips < n"
    and "T = completed 0 skips @ failed_at (length skips) skip m e" and "Unwrap X = Some e"
    by blast
  then have ex: "\<exists>skips skip m e. length skips < 3 \<and>
      completed 0 [False] @ failed_at 1 True Finalize example_error =
        completed 0 skips @ failed_at (length skips) skip m e \<and>
      Unwrap (step_error Finalize ''B'' example_error) = Some e"
    unfolding T_def X_def n3 by blast
  show ?thesis
    by (intro conjI) (rule e1 e2 e3 e4 e5 c1 [THEN conjunct1] c2 [THEN conjunct1]
        c3 [THEN conjunct1] c4 [THEN conjunct1] c5 [THEN conjunct1] ex)+
qed


end
